theory Spec2Isabelle
  imports Main
begin

section \<open>Shared data (src/index.ts)\<close>

text \<open>
  The repository holds two implementations side by side: the XState machines
  (\<open>mediaMachine\<close>, \<open>roomMachine\<close> and the services of \<open>roomServices\<close>) and the
  older ampersand-state models (\<open>Media\<close> of media.js, \<open>Room\<close> of room.js). Both are
  embedded here; the names of the older models carry the prefix \<open>Media_\<close> or \<open>Room_\<close>.
  Console output is not modelled. Every call that crosses the signaling or transport
  boundary is recorded as an effect, in the order the code makes them; the result of an
  awaited external call is an argument of the model.
\<close>

text \<open>The message of the TypeError a read through a missing object throws.\<close>

definition TypeError :: string where
  "TypeError = ''TypeError''"

datatype ready_state = rs_live | rs_ended

text \<open>A MediaStreamTrack: its identity and its \<open>readyState\<close>.\<close>

record track =
  track_id :: nat
  readyState :: ready_state

datatype media_kind = audio | video

text \<open>A mediasoup Producer or Consumer, as far as the client reads it.\<close>

record capability =
  cap_id :: string
  cap_kind :: media_kind
  cap_paused :: bool
  cap_closed :: bool

text \<open>
  \<open>Media\<close> of index.ts, which is also the context of a media machine. The actor of
  an entry is named by the media id (\<open>spawn(..., {name: event.media.id})\<close>).
\<close>

record Media =
  media_id :: string
  media_kind :: media_kind
  media_type :: string
  media_label :: "string option"
  media_track :: "track option"
  media_consumer :: "capability option"
  media_producer :: "capability option"
  media_deviceId :: "string option"
  media_peerId :: "string option"
  media_actor :: "string option"

section \<open>The media machine (mediaMachine)\<close>

datatype live_state = healthy | unhealthy

datatype active_state = live live_state | paused

datatype media_state = active active_state | switching | stopped

text \<open>
  \<open>MediaMachineEvent\<close>, and the two events XState raises when the invoked
  \<open>switch\<close> promise settles. PAUSED and RESUMED carry no originator.
\<close>

datatype MediaMachineEvent =
    SWITCH track
  | SWITCH_COMPLETE
  | SWITCH_FAILED
  | PAUSED
  | RESUMED
  | CLOSED
  | TRACK_METADATA_FAILURE
  | TRACK_METADATA_RESOLVED
  | TRACK_ENDED
  | done_invoke_switch track
  | error_platform_switch

datatype media_service = Track_service | Producer_service | switch_service

datatype media_effect =
    Start media_service
  | Stop media_service
  | TrackStop track
  | ReplaceTrack string track
  | ConsumerClose string
  | ProducerClose string
  | SendParent_MEDIA_CLOSED string

type_synonym media_conf = "media_state \<times> Media"

text \<open>The guard \<open>isPaused\<close>.\<close>

definition isPaused :: "Media \<Rightarrow> bool" where
  "isPaused ctx =
     ((case media_producer ctx of None \<Rightarrow> False | Some p \<Rightarrow> cap_paused p) \<or>
      (case media_consumer ctx of None \<Rightarrow> False | Some c \<Rightarrow> cap_paused c))"

text \<open>
  Entering \<open>active\<close> starts the two invoked services and resolves the transient
  state \<open>_\<close> at once: \<open>paused\<close> when the guard holds, else \<open>live.healthy\<close>.
\<close>

definition enter_active :: "Media \<Rightarrow> media_state \<times> media_effect list" where
  "enter_active ctx =
     (active (if isPaused ctx then paused else live healthy),
      [Start Track_service, Start Producer_service])"

text \<open>
  Leaving \<open>active\<close> stops the services; the disposer of the \<open>track\<close> service
  removes its listeners and stops the track it was started with.
\<close>

definition exit_active :: "Media \<Rightarrow> media_effect list" where
  "exit_active ctx =
     Stop Track_service #
     (case media_track ctx of None \<Rightarrow> [] | Some t \<Rightarrow> [TrackStop t]) @
     [Stop Producer_service]"

text \<open>The action \<open>close\<close>.\<close>

definition close_action :: "Media \<Rightarrow> media_effect list" where
  "close_action ctx =
     (case media_consumer ctx of None \<Rightarrow> [] | Some c \<Rightarrow> [ConsumerClose (cap_id c)]) @
     (case media_producer ctx of None \<Rightarrow> [] | Some p \<Rightarrow> [ProducerClose (cap_id p)])"

definition enter_stopped :: "Media \<Rightarrow> media_effect list" where
  "enter_stopped ctx = close_action ctx @ [SendParent_MEDIA_CLOSED (media_id ctx)]"

text \<open>
  The service \<open>switch\<close>, started on entry to \<open>switching\<close> with the SWITCH event:
  it calls \<open>context.producer.replaceTrack\<close>. Without a producer the call throws
  before any request is made.
\<close>

definition invoke_switch :: "Media \<Rightarrow> track \<Rightarrow> media_effect list" where
  "invoke_switch ctx t =
     Start switch_service #
     (case media_producer ctx of None \<Rightarrow> [] | Some p \<Rightarrow> [ReplaceTrack (cap_id p) t])"

text \<open>
  How the promise of \<open>switch\<close> settles: \<open>replaced\<close> says whether
  \<open>replaceTrack\<close> resolved. The data of the done event is the track of the SWITCH event.
\<close>

definition switch_settles :: "Media \<Rightarrow> track \<Rightarrow> bool \<Rightarrow> MediaMachineEvent" where
  "switch_settles ctx t replaced =
     (case media_producer ctx of
        None \<Rightarrow> error_platform_switch
      | Some p \<Rightarrow> if replaced then done_invoke_switch t else error_platform_switch)"

text \<open>
  One macrostep of the machine. A transition of the deepest state wins; \<open>active\<close>
  itself handles CLOSED, SWITCH and TRACK.ENDED; \<open>stopped\<close> is final.
\<close>

fun mediaMachine :: "media_conf \<Rightarrow> MediaMachineEvent \<Rightarrow> media_conf \<times> media_effect list" where
  "mediaMachine (active (live h), ctx) PAUSED = ((active paused, ctx), [])"
| "mediaMachine (active (live healthy), ctx) TRACK_METADATA_FAILURE =
     ((active (live unhealthy), ctx), [])"
| "mediaMachine (active (live unhealthy), ctx) TRACK_METADATA_RESOLVED =
     ((active (live healthy), ctx), [])"
| "mediaMachine (active paused, ctx) RESUMED = ((active (live healthy), ctx), [])"
| "mediaMachine (active a, ctx) CLOSED = ((stopped, ctx), exit_active ctx @ enter_stopped ctx)"
| "mediaMachine (active a, ctx) (SWITCH t) =
     ((switching, ctx), exit_active ctx @ invoke_switch ctx t)"
| "mediaMachine (active a, ctx) TRACK_ENDED =
     ((stopped, ctx), exit_active ctx @ enter_stopped ctx)"
| "mediaMachine (switching, ctx) (done_invoke_switch t) =
     (let ctx' = ctx\<lparr>media_track := Some t\<rparr>
      in ((fst (enter_active ctx'), ctx'), Stop switch_service # snd (enter_active ctx')))"
| "mediaMachine (switching, ctx) error_platform_switch =
     ((stopped, ctx), Stop switch_service # enter_stopped ctx)"
| "mediaMachine conf ev = (conf, [])"

text \<open>
  The machine starts in \<open>active\<close>. The \<open>track\<close> service registers its listeners
  on the track of the context as soon as it is started, so the start of a machine whose
  context has no track throws.
\<close>

definition mediaMachine_start :: "Media \<Rightarrow> string + (media_conf \<times> media_effect list)" where
  "mediaMachine_start ctx =
     (if media_track ctx = None then Inl TypeError
      else Inr ((fst (enter_active ctx), ctx), snd (enter_active ctx)))"

text \<open>Runs a list of events, collecting the effects.\<close>

fun mediaMachine_run :: "media_conf \<Rightarrow> MediaMachineEvent list \<Rightarrow> media_conf \<times> media_effect list" where
  "mediaMachine_run conf [] = (conf, [])"
| "mediaMachine_run conf (ev # evs) =
     (let (conf', es) = mediaMachine conf ev;
          (conf'', es') = mediaMachine_run conf' evs
      in (conf'', es @ es'))"

definition in_active :: "media_state \<Rightarrow> bool" where
  "in_active s = (case s of active a \<Rightarrow> True | _ \<Rightarrow> False)"

definition replace_calls :: "media_effect list \<Rightarrow> track list" where
  "replace_calls es = concat (map (\<lambda>e. case e of ReplaceTrack p t \<Rightarrow> [t] | _ \<Rightarrow> []) es)"

section \<open>The room machine: data (src/index.ts)\<close>

record Browser =
  flag :: string
  browser_name :: string
  browser_version :: string

text \<open>
  \<open>Peer\<close> of index.ts. A field is \<open>None\<close> where the object has none: the peer of
  a \<open>newPeer\<close> notification takes its fields from the payload as they are.
\<close>

record Peer =
  peer_id :: "string option"
  peer_device :: "Browser option"
  peer_info :: "string option"

record RoomSettings =
  produce :: bool
  consume :: bool
  forceTcp :: bool
  forceH264 :: bool
  forceVP9 :: bool
  useSimulcast :: bool

record codec =
  mimeType :: string
  codec_kind :: media_kind

text \<open>The mediasoup Device: \<open>canProduce\<close> and \<open>rtpCapabilities.codecs\<close>.\<close>

record Device =
  canProduce :: "media_kind \<Rightarrow> bool"
  codecs :: "codec list"

record Transport =
  transport_id :: string

record RoomMachineContext =
  ctx_id :: string
  ctx_socketUrl :: string
  ctx_peerId :: string
  ctx_peerInfo :: "string option"
  ctx_peers :: "Peer list"
  ctx_media :: "Media list"
  ctx_protoo :: "nat option"
  ctx_browser :: Browser
  ctx_sendTransport :: "Transport option"
  ctx_recvTransport :: "Transport option"
  ctx_mediasoupDevice :: "Device option"
  ctx_settings :: RoomSettings

text \<open>
  \<open>VideoDefinition\<close> and \<open>AudioDefinition\<close>: the fields the command handler
  reads. \<open>resolution\<close> and \<open>constraints\<close> only reach \<open>getUserMedia\<close>, whose
  result is an argument of the model. A missing or empty \<open>type\<close> or \<open>label\<close> is
  falsy.
\<close>

record MediaDefinition =
  def_type :: "string option"
  def_deviceId :: "string option"
  def_label :: "string option"
  def_track :: "track option"

datatype RoomCommand =
    RestartIce
  | UpdatePeer string
  | SendVideo MediaDefinition
  | SendAudio MediaDefinition
  | SwitchVideo string MediaDefinition
  | SwitchAudio string MediaDefinition
  | PauseMedia string
  | ResumeMedia string
  | ModifyMedia string
  | StopSendingMedia string

fun command_name :: "RoomCommand \<Rightarrow> string" where
  "command_name RestartIce = ''RestartIce''"
| "command_name (UpdatePeer d) = ''UpdatePeer''"
| "command_name (SendVideo d) = ''SendVideo''"
| "command_name (SendAudio d) = ''SendAudio''"
| "command_name (SwitchVideo i d) = ''SwitchVideo''"
| "command_name (SwitchAudio i d) = ''SwitchAudio''"
| "command_name (PauseMedia i) = ''PauseMedia''"
| "command_name (ResumeMedia i) = ''ResumeMedia''"
| "command_name (ModifyMedia c) = ''ModifyMedia''"
| "command_name (StopSendingMedia i) = ''StopSendingMedia''"

text \<open>The application data a producer is created with, and a consumer reports.\<close>

record appData =
  app_type :: "string option"
  app_deviceId :: "string option"
  app_label :: "string option"

text \<open>The payload of a \<open>newConsumer\<close> request.\<close>

record newConsumer_data =
  nc_peerId :: string
  nc_producerId :: string
  nc_id :: string
  nc_kind :: media_kind
  nc_appData :: appData

text \<open>An inbound request: its name and its payload; \<open>None\<close> is a null payload.\<close>

record IncomingRequest =
  request_name :: string
  request_data :: "newConsumer_data option"

text \<open>
  The payload of a notification: the fields the handlers read, each \<open>None\<close> where
  the payload has none. The payload itself is \<open>None\<close> when it is null.
\<close>

record notification_payload =
  data_id :: "string option"
  data_info :: "string option"
  data_device :: "Browser option"
  data_peerId :: "string option"
  data_consumerId :: "string option"

record Notification =
  notification_name :: string
  notification_data :: "notification_payload option"

text \<open>What \<open>performJoin\<close> resolves with (nothing when \<open>settings.produce\<close> is off).\<close>

record join_result =
  jr_peers :: "Peer list"
  jr_sendTransport :: "Transport option"
  jr_recvTransport :: "Transport option"
  jr_mediasoupDevice :: "Device option"

text \<open>
  \<open>RoomMachineEvent\<close>, the two events the handlers send back without a declared
  type (COMMAND_FAILED, NOTIFICATION_ERROR), and the events XState raises when an
  invoked promise settles.
\<close>

datatype RoomMachineEvent =
    COMMAND RoomCommand
  | REQUEST IncomingRequest
  | NOTIFICATION Notification
  | JOIN
  | CONNECT
  | DISCONNECT
  | CLOSE
  | LEAVE
  | SOCKET_CONNECTED nat Device
  | SOCKET_FAILED
  | SOCKET_DISCONNECTED
  | SOCKET_CLOSED
  | MEDIA_CLOSED string
  | PEER_JOINED Peer
  | PEER_LEFT "string option"
  | PEER_UPDATED "string option" "string option"
  | LOCAL_MEDIA_ADDED Media
  | REMOTE_MEDIA_ADDED Media
  | COMMAND_FAILED string string
  | NOTIFICATION_ERROR string string
  | done_invoke_performJoin "join_result option"
  | error_platform_performJoin
  | done_invoke_performLeave
  | error_platform_performLeave

datatype connected_state = waiting | joining | joined | leaving | left

datatype active_room_state = connecting | connected connected_state | reconnecting

datatype room_state = room_waiting | room_active active_room_state

datatype room_service =
    Socket
  | RequestHandler
  | NotificationHandler
  | CommandHandler
  | performJoin_service
  | performLeave_service

text \<open>
  What a macrostep of the room machine does besides changing state and context: it
  starts and stops invoked services, forwards an event (with the context) to a service,
  spawns a media actor and stops one. \<open>Thrown\<close> is a macrostep in which an action
  throws: the error reaches the sender of the event and the machine keeps its state and
  its context.
\<close>

datatype room_effect =
    StartService room_service
  | StopService room_service
  | SendTo room_service RoomMachineEvent
  | Spawn string
  | StopActor "string option"
  | Thrown string

type_synonym room_conf = "room_state \<times> RoomMachineContext"

section \<open>The room machine (roomMachine)\<close>

text \<open>
  The actions \<open>reset\<close> and \<open>addMedia\<close>. \<open>spawn\<close> starts the media machine inside
  the assignment; when that start throws, the assignment throws with it.
\<close>

definition reset :: "RoomMachineContext \<Rightarrow> RoomMachineContext" where
  "reset ctx = ctx\<lparr>ctx_peers := [], ctx_media := []\<rparr>"

definition addMedia ::
  "RoomMachineContext \<Rightarrow> Media \<Rightarrow> string + (RoomMachineContext \<times> room_effect list)" where
  "addMedia ctx m =
     (case mediaMachine_start m of
        Inl msg \<Rightarrow> Inl msg
      | Inr started \<Rightarrow>
          Inr (ctx\<lparr>ctx_media := ctx_media ctx @ [m\<lparr>media_actor := Some (media_id m)\<rparr>]\<rparr>,
               [Spawn (media_id m)]))"

text \<open>
  The two actions of MEDIA.CLOSED. XState applies the assignment first; the function
  after it reads the context the assignment produced.
\<close>

definition media_closed :: "RoomMachineContext \<Rightarrow> string \<Rightarrow> RoomMachineContext \<times> room_effect list" where
  "media_closed ctx mediaId =
     (let ctx' = ctx\<lparr>ctx_media := filter (\<lambda>x. media_id x \<noteq> mediaId) (ctx_media ctx)\<rparr>
      in (ctx', map (\<lambda>x. StopActor (media_actor x))
                  (filter (\<lambda>x. media_id x = mediaId) (ctx_media ctx'))))"

text \<open>The assignment of \<open>performJoin\<close>'s result: \<open>{...event.data}\<close>.\<close>

definition assign_join :: "RoomMachineContext \<Rightarrow> join_result option \<Rightarrow> RoomMachineContext" where
  "assign_join ctx d =
     (case d of
        None \<Rightarrow> ctx
      | Some r \<Rightarrow> ctx\<lparr>ctx_peers := jr_peers r,
                      ctx_sendTransport := jr_sendTransport r,
                      ctx_recvTransport := jr_recvTransport r,
                      ctx_mediasoupDevice := jr_mediasoupDevice r\<rparr>)"

text \<open>The services a state of \<open>connected\<close> invokes, stopped when it is left.\<close>

fun exit_connected_state :: "connected_state \<Rightarrow> room_effect list" where
  "exit_connected_state joining = [StopService performJoin_service]"
| "exit_connected_state joined = [StopService CommandHandler]"
| "exit_connected_state leaving = [StopService performLeave_service]"
| "exit_connected_state s = []"

fun enter_connected_state :: "connected_state \<Rightarrow> room_effect list" where
  "enter_connected_state joining = [StartService performJoin_service]"
| "enter_connected_state joined = [StartService CommandHandler]"
| "enter_connected_state leaving = [StartService performLeave_service]"
| "enter_connected_state s = []"

definition exit_connected :: "connected_state \<Rightarrow> room_effect list" where
  "exit_connected s =
     exit_connected_state s @ [StopService RequestHandler, StopService NotificationHandler]"

text \<open>Entering \<open>connected\<close> enters its initial state \<open>waiting\<close>.\<close>

definition enter_connected :: "active_room_state \<times> room_effect list" where
  "enter_connected =
     (connected waiting,
      [StartService RequestHandler, StartService NotificationHandler] @
      enter_connected_state waiting)"

definition exit_room_active :: "active_room_state \<Rightarrow> room_effect list" where
  "exit_room_active a =
     (case a of connected s \<Rightarrow> exit_connected s | _ \<Rightarrow> []) @ [StopService Socket]"

text \<open>The transitions the states of \<open>connected\<close> declare themselves.\<close>

definition on_connected_state ::
  "connected_state \<Rightarrow> RoomMachineContext \<Rightarrow> RoomMachineEvent \<Rightarrow>
     ((connected_state \<times> RoomMachineContext) \<times> room_effect list) option" where
  "on_connected_state s ctx ev =
     (case (s, ev) of
        (waiting, JOIN) \<Rightarrow>
          Some ((joining, ctx), exit_connected_state s @ enter_connected_state joining)
      | (left, JOIN) \<Rightarrow>
          Some ((joining, ctx), exit_connected_state s @ enter_connected_state joining)
      | (joining, done_invoke_performJoin d) \<Rightarrow>
          Some ((joined, assign_join ctx d),
                exit_connected_state s @ enter_connected_state joined)
      | (joining, error_platform_performJoin) \<Rightarrow>
          Some ((waiting, ctx), exit_connected_state s @ enter_connected_state waiting)
      | (joined, LEAVE) \<Rightarrow>
          Some ((leaving, ctx), exit_connected_state s @ enter_connected_state leaving)
      | (joined, COMMAND c) \<Rightarrow> Some ((joined, ctx), [SendTo CommandHandler (COMMAND c)])
      | (leaving, done_invoke_performLeave) \<Rightarrow>
          Some ((left, reset ctx), exit_connected_state s @ enter_connected_state left)
      | (leaving, error_platform_performLeave) \<Rightarrow>
          Some ((joined, ctx), exit_connected_state s @ enter_connected_state joined)
      | _ \<Rightarrow> None)"

text \<open>The transitions \<open>connected\<close> declares for all of its states.\<close>

definition on_connected ::
  "connected_state \<Rightarrow> RoomMachineContext \<Rightarrow> RoomMachineEvent \<Rightarrow>
     (room_conf \<times> room_effect list) option" where
  "on_connected s ctx ev =
     (case ev of
        SOCKET_DISCONNECTED \<Rightarrow> Some ((room_active reconnecting, ctx), exit_connected s)
      | REQUEST r \<Rightarrow>
          Some ((room_active (connected s), ctx), [SendTo RequestHandler (REQUEST r)])
      | NOTIFICATION n \<Rightarrow>
          Some ((room_active (connected s), ctx), [SendTo NotificationHandler (NOTIFICATION n)])
      | PEER_JOINED p \<Rightarrow>
          Some ((room_active (connected s), ctx\<lparr>ctx_peers := ctx_peers ctx @ [p]\<rparr>), [])
      | PEER_LEFT peerId \<Rightarrow>
          Some ((room_active (connected s),
                 ctx\<lparr>ctx_peers := filter (\<lambda>x. peer_id x \<noteq> peerId) (ctx_peers ctx),
                     ctx_media := filter (\<lambda>x. media_peerId x \<noteq> peerId) (ctx_media ctx)\<rparr>),
                [])
      | PEER_UPDATED peerId info \<Rightarrow>
          Some ((room_active (connected s),
                 ctx\<lparr>ctx_peers :=
                       map (\<lambda>x. if peer_id x \<noteq> peerId then x else x\<lparr>peer_info := info\<rparr>)
                         (ctx_peers ctx)\<rparr>),
                [])
      | LOCAL_MEDIA_ADDED m \<Rightarrow>
          (case addMedia ctx m of
             Inl msg \<Rightarrow> Some ((room_active (connected s), ctx), [Thrown msg])
           | Inr (ctx', es) \<Rightarrow> Some ((room_active (connected s), ctx'), es))
      | REMOTE_MEDIA_ADDED m \<Rightarrow>
          (case addMedia ctx m of
             Inl msg \<Rightarrow> Some ((room_active (connected s), ctx), [Thrown msg])
           | Inr (ctx', es) \<Rightarrow> Some ((room_active (connected s), ctx'), es))
      | MEDIA_CLOSED mediaId \<Rightarrow>
          Some ((room_active (connected s), fst (media_closed ctx mediaId)),
                snd (media_closed ctx mediaId))
      | _ \<Rightarrow> None)"

text \<open>The transitions of \<open>connecting\<close> and \<open>reconnecting\<close>.\<close>

definition on_active_state ::
  "active_room_state \<Rightarrow> RoomMachineContext \<Rightarrow> RoomMachineEvent \<Rightarrow>
     (room_conf \<times> room_effect list) option" where
  "on_active_state a ctx ev =
     (case (a, ev) of
        (connecting, SOCKET_CONNECTED p d) \<Rightarrow>
          Some ((room_active (fst enter_connected),
                 ctx\<lparr>ctx_protoo := Some p, ctx_mediasoupDevice := Some d\<rparr>),
                snd enter_connected)
      | (reconnecting, SOCKET_CONNECTED p d) \<Rightarrow>
          Some ((room_active (fst enter_connected), ctx), snd enter_connected)
      | (connected s, _) \<Rightarrow>
          (case on_connected_state s ctx ev of
             Some ((s', ctx'), es) \<Rightarrow> Some ((room_active (connected s'), ctx'), es)
           | None \<Rightarrow> on_connected s ctx ev)
      | _ \<Rightarrow> None)"

text \<open>
  The transitions of the root: DISCONNECT and SOCKET.CLOSED lead to \<open>waiting\<close> from
  everywhere; leaving \<open>active\<close> runs its exit action \<open>reset\<close> and stops the socket.
\<close>

definition on_root :: "room_conf \<Rightarrow> room_conf \<times> room_effect list" where
  "on_root conf =
     (case fst conf of
        room_waiting \<Rightarrow> ((room_waiting, snd conf), [])
      | room_active a \<Rightarrow> ((room_waiting, reset (snd conf)), exit_room_active a))"

text \<open>One macrostep of the room machine: the deepest state that handles the event wins.\<close>

definition roomMachine :: "room_conf \<Rightarrow> RoomMachineEvent \<Rightarrow> room_conf \<times> room_effect list" where
  "roomMachine conf ev =
     (case
        (case fst conf of
           room_waiting \<Rightarrow>
             (case ev of
                CONNECT \<Rightarrow> Some ((room_active connecting, snd conf), [StartService Socket])
              | _ \<Rightarrow> None)
         | room_active a \<Rightarrow> on_active_state a (snd conf) ev)
      of
        Some r \<Rightarrow> r
      | None \<Rightarrow>
          (case ev of
             DISCONNECT \<Rightarrow> on_root conf
           | SOCKET_CLOSED \<Rightarrow> on_root conf
           | _ \<Rightarrow> (conf, [])))"

fun roomMachine_run :: "room_conf \<Rightarrow> RoomMachineEvent list \<Rightarrow> room_conf \<times> room_effect list" where
  "roomMachine_run conf [] = (conf, [])"
| "roomMachine_run conf (ev # evs) =
     (let (conf', es) = roomMachine conf ev;
          (conf'', es') = roomMachine_run conf' evs
      in (conf'', es @ es'))"

section \<open>The services of the room machine (roomServices)\<close>

text \<open>
  What a service does: it answers the parent machine (\<open>sendBack\<close>), accepts or rejects
  an inbound request, sends a request over the signaling channel, drives a transport, a
  producer or a consumer, and sends an event to a media actor.
\<close>

datatype produce_encodings = no_encodings | WEBCAM_KSVC_ENCODINGS | WEBCAM_SIMULCAST_ENCODINGS

datatype service_effect =
    SendBack RoomMachineEvent
  | Accept
  | Reject nat string
  | ProtooRequest string "string option"
  | TransportConsume string
  | TransportProduce "track option" "codec option" produce_encodings appData
  | TransportClose string
  | GetUserMedia media_kind
  | CapabilityPause string
  | CapabilityResume string
  | CapabilityClose string
  | ActorSend string MediaMachineEvent
  | OnDiagnostics Notification

text \<open>
  The results of the awaited external calls. A request over the signaling channel
  resolves (\<open>None\<close>) or rejects with a message. \<open>getUserMedia\<close> rejects, or resolves
  with a stream whose first track of the kind may be missing. \<open>produce\<close> and
  \<open>consume\<close> reject or resolve with the new producer or consumer.
\<close>

record environment =
  request_rejects :: "string \<Rightarrow> string option \<Rightarrow> string option"
  getUserMedia_result :: "media_kind \<Rightarrow> MediaDefinition \<Rightarrow> string + track option"
  produce_result :: "track option \<Rightarrow> string + capability"
  consume_result :: "newConsumer_data \<Rightarrow> string + (capability \<times> track)"
  createWebRtcTransport_result :: "bool \<Rightarrow> string + Transport"
  join_peers :: "string + Peer list"

text \<open>\<open>await protoo.request(name, payload)\<close>: the effects, and the message when it throws.\<close>

definition protoo_request ::
  "RoomMachineContext \<Rightarrow> environment \<Rightarrow> string \<Rightarrow> string option \<Rightarrow> service_effect list \<times> string option" where
  "protoo_request ctx env name arg =
     (case ctx_protoo ctx of
        None \<Rightarrow> ([], Some TypeError)
      | Some p \<Rightarrow> ([ProtooRequest name arg], request_rejects env name arg))"

subsection \<open>notificationHandler\<close>

definition DIAGNOSTIC_NOTIFICATIONS :: "string list" where
  "DIAGNOSTIC_NOTIFICATIONS = [''downlinkBwe'', ''consumerLayersChanged'', ''consumerScore'']"

definition onError :: "Notification \<Rightarrow> string \<Rightarrow> service_effect list" where
  "onError n reason = [SendBack (NOTIFICATION_ERROR (notification_name n) reason)]"

text \<open>
  The switch over \<open>notification.name\<close> has four cases and no default. Each case
  reads fields of the payload, which throws when the payload is null and yields
  undefined fields when the payload lacks them. The case \<open>consumerClosed\<close> only
  builds a send action and returns it: nothing is sent.
\<close>

definition notificationHandler :: "RoomMachineContext \<Rightarrow> Notification \<Rightarrow> service_effect list" where
  "notificationHandler ctx n =
     (if notification_name n = ''newPeer'' then
        (case notification_data n of
           None \<Rightarrow> onError n TypeError
         | Some d \<Rightarrow>
             [SendBack (PEER_JOINED
                \<lparr>peer_id = data_id d, peer_device = data_device d, peer_info = data_info d\<rparr>)])
      else if notification_name n = ''peerClosed'' then
        (case notification_data n of
           None \<Rightarrow> onError n TypeError
         | Some d \<Rightarrow>
             concat (map (\<lambda>x. case media_consumer x of
                                 None \<Rightarrow> [] | Some c \<Rightarrow> [CapabilityClose (cap_id c)])
                       (filter (\<lambda>x. media_peerId x = data_peerId d) (ctx_media ctx))) @
             [SendBack (PEER_LEFT (data_peerId d))])
      else if notification_name n = ''peerUpdated'' then
        (case notification_data n of
           None \<Rightarrow> onError n TypeError
         | Some d \<Rightarrow> [SendBack (PEER_UPDATED (data_peerId d) (data_info d))])
      else if notification_name n = ''consumerClosed'' then
        (case notification_data n of
           None \<Rightarrow> onError n TypeError
         | Some d \<Rightarrow> [])
      else [])"

subsection \<open>requestHandler\<close>

text \<open>
  The \<open>reject\<close> the socket service hands to the handler: \<open>reject(403, reason)\<close>,
  with the reason \<open>Not available\<close> when none is given.
\<close>

definition reject_request :: "string option \<Rightarrow> service_effect" where
  "reject_request reason =
     Reject 403 (case reason of None \<Rightarrow> ''Not available'' | Some r \<Rightarrow> r)"

text \<open>
  The switch over \<open>request.name\<close> has the one case \<open>newConsumer\<close> and no default:
  for any other name the handler returns without calling \<open>accept\<close> or \<open>reject\<close>.
\<close>

definition requestHandler ::
  "RoomMachineContext \<Rightarrow> IncomingRequest \<Rightarrow> environment \<Rightarrow> service_effect list" where
  "requestHandler ctx request env =
     (if request_name request = ''newConsumer'' then
        (case request_data request of
           None \<Rightarrow> [reject_request (Some TypeError)]
         | Some d \<Rightarrow>
             (case ctx_recvTransport ctx of
                None \<Rightarrow> [reject_request (Some TypeError)]
              | Some recvTransport \<Rightarrow>
                  (case consume_result env d of
                     Inl msg \<Rightarrow> [TransportConsume (nc_id d), reject_request (Some msg)]
                   | Inr (consumer, tr) \<Rightarrow>
                       [TransportConsume (nc_id d),
                        SendBack (REMOTE_MEDIA_ADDED
                          \<lparr>media_id = cap_id consumer,
                           media_kind = cap_kind consumer,
                           media_type = (case app_type (nc_appData d) of None \<Rightarrow> [] | Some t \<Rightarrow> t),
                           media_label = app_label (nc_appData d),
                           media_track = Some tr,
                           media_consumer = Some consumer,
                           media_producer = None,
                           media_deviceId = app_deviceId (nc_appData d),
                           media_peerId = Some (nc_peerId d),
                           media_actor = None\<rparr>),
                        Accept])))
      else [])"

subsection \<open>commandHandler\<close>

text \<open>
  \<open>reject\<close> of the command handler, also reached from its \<open>catch\<close> with the message
  of the error.
\<close>

definition command_failed :: "RoomCommand \<Rightarrow> string \<Rightarrow> service_effect list" where
  "command_failed command reason = [SendBack (COMMAND_FAILED (command_name command) reason)]"

definition find_media :: "RoomMachineContext \<Rightarrow> string \<Rightarrow> Media option" where
  "find_media ctx mediaId = List.find (\<lambda>x. media_id x = mediaId) (ctx_media ctx)"

text \<open>
  An entry that holds a consumer or a producer and not both, and the media an event
  asks the machine to add.
\<close>

definition single_capability :: "Media \<Rightarrow> bool" where
  "single_capability m = ((media_consumer m = None) \<noteq> (media_producer m = None))"

definition added_media :: "RoomMachineEvent \<Rightarrow> Media option" where
  "added_media ev =
     (case ev of
        LOCAL_MEDIA_ADDED x \<Rightarrow> Some x
      | REMOTE_MEDIA_ADDED x \<Rightarrow> Some x
      | _ \<Rightarrow> None)"

text \<open>A value of a definition is falsy when it is missing or the empty string.\<close>

definition or_default :: "string option \<Rightarrow> string \<Rightarrow> string" where
  "or_default v d = (case v of None \<Rightarrow> d | Some s \<Rightarrow> if s = [] then d else s)"

definition producer_appData :: "MediaDefinition \<Rightarrow> appData" where
  "producer_appData payload =
     \<lparr>app_type = Some (or_default (def_type payload) ''unknown''),
      app_deviceId = def_deviceId payload,
      app_label = Some (or_default (def_label payload) [])\<rparr>"

text \<open>\<open>payload.track || (await getAudio(payload))\<close>, and the same for video.\<close>

definition get_track ::
  "environment \<Rightarrow> media_kind \<Rightarrow> MediaDefinition \<Rightarrow> service_effect list \<times> (string + track option)" where
  "get_track env k payload =
     (case def_track payload of
        Some t \<Rightarrow> ([], Inr (Some t))
      | None \<Rightarrow> ([GetUserMedia k], getUserMedia_result env k payload))"

text \<open>The media of a LOCAL_MEDIA_ADDED event.\<close>

definition local_media ::
  "RoomMachineContext \<Rightarrow> capability \<Rightarrow> track \<Rightarrow> MediaDefinition \<Rightarrow> Media" where
  "local_media ctx producer tr payload =
     \<lparr>media_id = cap_id producer,
      media_kind = cap_kind producer,
      media_type = or_default (def_type payload) ''unknown'',
      media_label = Some (or_default (def_label payload) []),
      media_track = Some tr,
      media_consumer = None,
      media_producer = Some producer,
      media_deviceId = def_deviceId payload,
      media_peerId = Some (ctx_peerId ctx),
      media_actor = None\<rparr>"

text \<open>
  \<open>sendTransport.produce\<close>, then the check of the track (after the producer exists),
  then LOCAL_MEDIA_ADDED: the tail that SendAudio and SendVideo share.
\<close>

definition produce_and_add ::
  "RoomMachineContext \<Rightarrow> environment \<Rightarrow> RoomCommand \<Rightarrow> MediaDefinition \<Rightarrow> track option \<Rightarrow>
     codec option \<Rightarrow> produce_encodings \<Rightarrow> service_effect list" where
  "produce_and_add ctx env command payload tr cdc enc =
     (case ctx_sendTransport ctx of
        None \<Rightarrow> command_failed command TypeError
      | Some sendTransport \<Rightarrow>
          TransportProduce tr cdc enc (producer_appData payload) #
          (case produce_result env tr of
             Inl msg \<Rightarrow> command_failed command msg
           | Inr producer \<Rightarrow>
               (case tr of
                  None \<Rightarrow> command_failed command ''Failed to get audio track''
                | Some t \<Rightarrow> [SendBack (LOCAL_MEDIA_ADDED (local_media ctx producer t payload))])))"

definition toLowerCase :: "string \<Rightarrow> string" where
  "toLowerCase s =
     map (\<lambda>c. if of_char CHR ''A'' \<le> (of_char c :: nat) \<and> (of_char c :: nat) \<le> of_char CHR ''Z''
              then char_of (of_char c + (32 :: nat)) else c) s"

definition find_codec :: "Device \<Rightarrow> string \<Rightarrow> codec option" where
  "find_codec device mime = List.find (\<lambda>c. toLowerCase (mimeType c) = mime) (codecs device)"

text \<open>
  The codec and the encodings of SendVideo: the message of the error it throws, or the
  pair it passes to \<open>produce\<close>.
\<close>

definition video_codec :: "RoomSettings \<Rightarrow> Device \<Rightarrow> string + codec option" where
  "video_codec settings device =
     (if forceH264 settings then
        (case find_codec device ''video/h264'' of
           None \<Rightarrow> Inl ''desired H264 codec+configuration is not supported''
         | Some c \<Rightarrow> Inr (Some c))
      else if forceVP9 settings then
        (case find_codec device ''video/vp9'' of
           None \<Rightarrow> Inl ''desired VP9 codec+configuration is not supported''
         | Some c \<Rightarrow> Inr (Some c))
      else Inr None)"

definition video_encodings :: "RoomSettings \<Rightarrow> Device \<Rightarrow> codec option \<Rightarrow> string + produce_encodings" where
  "video_encodings settings device cdc =
     (if useSimulcast settings then
        (if forceVP9 settings \<and> cdc \<noteq> None then Inr WEBCAM_KSVC_ENCODINGS
         else
           (case List.find (\<lambda>c. codec_kind c = video) (codecs device) of
              None \<Rightarrow> Inl TypeError
            | Some firstVideoCodec \<Rightarrow>
                if toLowerCase (mimeType firstVideoCodec) = ''video/vp9''
                then Inr WEBCAM_KSVC_ENCODINGS else Inr WEBCAM_SIMULCAST_ENCODINGS))
      else Inr no_encodings)"

text \<open>
  PauseMedia and ResumeMedia treat the consumer first, then the producer; each half
  awaits its request before it touches the object. \<open>resume_half\<close> is one half of
  ResumeMedia: the effects, and the reason when the command ends there.
\<close>

definition pause_half ::
  "RoomMachineContext \<Rightarrow> environment \<Rightarrow> string \<Rightarrow> capability option \<Rightarrow>
     service_effect list \<times> string option" where
  "pause_half ctx env name cap =
     (case cap of
        None \<Rightarrow> ([], None)
      | Some c \<Rightarrow>
          (case protoo_request ctx env name (Some (cap_id c)) of
             (es, Some msg) \<Rightarrow> (es, Some msg)
           | (es, None) \<Rightarrow> (es @ [CapabilityPause (cap_id c)], None)))"

definition resume_half ::
  "RoomMachineContext \<Rightarrow> environment \<Rightarrow> string \<Rightarrow> capability option \<Rightarrow>
     service_effect list \<times> string option" where
  "resume_half ctx env name cap =
     (case cap of
        None \<Rightarrow> ([], None)
      | Some c \<Rightarrow>
          if cap_closed c then ([], Some ''Media is closed'')
          else
            (case protoo_request ctx env name (Some (cap_id c)) of
               (es, Some msg) \<Rightarrow> (es, Some msg)
             | (es, None) \<Rightarrow> (es @ [CapabilityResume (cap_id c)], None)))"

text \<open>
  \<open>media.actor.send(event)\<close>. An entry gets its actor when the machine adds it to the
  list; on an entry without one the call throws and the \<open>catch\<close> of the handler
  reports the command as failed.
\<close>

definition actor_send :: "RoomCommand \<Rightarrow> Media \<Rightarrow> MediaMachineEvent \<Rightarrow> service_effect list" where
  "actor_send command media ev =
     (case media_actor media of
        None \<Rightarrow> command_failed command TypeError
      | Some a \<Rightarrow> [ActorSend a ev])"

text \<open>Runs two halves in order and then sends the event to the actor of the media.\<close>

definition both_halves ::
  "RoomCommand \<Rightarrow> Media \<Rightarrow> MediaMachineEvent \<Rightarrow>
     service_effect list \<times> string option \<Rightarrow> service_effect list \<times> string option \<Rightarrow>
     service_effect list" where
  "both_halves command media ev h1 h2 =
     (case h1 of
        (es1, Some msg) \<Rightarrow> es1 @ command_failed command msg
      | (es1, None) \<Rightarrow>
          (case h2 of
             (es2, Some msg) \<Rightarrow> es1 @ es2 @ command_failed command msg
           | (es2, None) \<Rightarrow> es1 @ es2 @ actor_send command media ev))"

definition switch_media ::
  "RoomMachineContext \<Rightarrow> environment \<Rightarrow> RoomCommand \<Rightarrow> media_kind \<Rightarrow> string \<Rightarrow>
     MediaDefinition \<Rightarrow> service_effect list" where
  "switch_media ctx env command k mediaId newDefinition =
     (case find_media ctx mediaId of
        None \<Rightarrow> command_failed command ''Media not found''
      | Some media \<Rightarrow>
          if media_producer media = None then command_failed command ''Media is not sending''
          else
            (case get_track env k newDefinition of
               (es, Inl msg) \<Rightarrow> es @ command_failed command msg
             | (es, Inr None) \<Rightarrow> es @ command_failed command ''Failed to get video track''
             | (es, Inr (Some t)) \<Rightarrow> es @ actor_send command media (SWITCH t)))"

text \<open>
  The handler of one COMMAND event, with the context the machine attached to it. A
  command without a case of its own is proxied to the server under its name.
\<close>

definition commandHandler ::
  "RoomMachineContext \<Rightarrow> RoomCommand \<Rightarrow> environment \<Rightarrow> service_effect list" where
  "commandHandler ctx command env =
     (case command of
        SendAudio payload \<Rightarrow>
          (case ctx_mediasoupDevice ctx of
             None \<Rightarrow> command_failed command TypeError
           | Some device \<Rightarrow>
               if \<not> canProduce device audio then []
               else
                 (case get_track env audio payload of
                    (es, Inl msg) \<Rightarrow> es @ command_failed command msg
                  | (es, Inr tr) \<Rightarrow>
                      es @ produce_and_add ctx env command payload tr None no_encodings))
      | SendVideo payload \<Rightarrow>
          (case ctx_mediasoupDevice ctx of
             None \<Rightarrow> command_failed command TypeError
           | Some device \<Rightarrow>
               if \<not> canProduce device video then []
               else
                 (case get_track env video payload of
                    (es, Inl msg) \<Rightarrow> es @ command_failed command msg
                  | (es, Inr tr) \<Rightarrow>
                      (case video_codec (ctx_settings ctx) device of
                         Inl msg \<Rightarrow> es @ command_failed command msg
                       | Inr cdc \<Rightarrow>
                           (case video_encodings (ctx_settings ctx) device cdc of
                              Inl msg \<Rightarrow> es @ command_failed command msg
                            | Inr enc \<Rightarrow>
                                es @ produce_and_add ctx env command payload tr cdc enc))))
      | PauseMedia mediaId \<Rightarrow>
          (case find_media ctx mediaId of
             None \<Rightarrow> command_failed command ''Media not found''
           | Some media \<Rightarrow>
               both_halves command media PAUSED
                 (pause_half ctx env ''pauseConsumer'' (media_consumer media))
                 (pause_half ctx env ''pauseProducer'' (media_producer media)))
      | ResumeMedia mediaId \<Rightarrow>
          (case find_media ctx mediaId of
             None \<Rightarrow> command_failed command ''Media not found''
           | Some media \<Rightarrow>
               both_halves command media RESUMED
                 (resume_half ctx env ''resumeConsumer'' (media_consumer media))
                 (resume_half ctx env ''resumeProducer'' (media_producer media)))
      | StopSendingMedia mediaId \<Rightarrow>
          (case find_media ctx mediaId of
             None \<Rightarrow> command_failed command ''Media not found''
           | Some media \<Rightarrow>
               (case media_producer media of
                  None \<Rightarrow> command_failed command ''Media is not sending''
                | Some p \<Rightarrow>
                    (case protoo_request ctx env ''closeProducer'' (Some (cap_id p)) of
                       (es, Some msg) \<Rightarrow> es @ command_failed command msg
                     | (es, None) \<Rightarrow>
                         es @ CapabilityClose (cap_id p) # actor_send command media CLOSED)))
      | SwitchVideo mediaId newDefinition \<Rightarrow>
          switch_media ctx env command video mediaId newDefinition
      | SwitchAudio mediaId newDefinition \<Rightarrow>
          switch_media ctx env command audio mediaId newDefinition
      | _ \<Rightarrow>
          (case protoo_request ctx env (command_name command) None of
             (es, Some msg) \<Rightarrow> es @ command_failed command msg
           | (es, None) \<Rightarrow> es))"

text \<open>The events a list of effects sends back to the room machine, in order.\<close>

definition sent_back :: "service_effect list \<Rightarrow> RoomMachineEvent list" where
  "sent_back es = concat (map (\<lambda>e. case e of SendBack ev \<Rightarrow> [ev] | _ \<Rightarrow> []) es)"

definition requests_sent :: "service_effect list \<Rightarrow> string list" where
  "requests_sent es = concat (map (\<lambda>e. case e of ProtooRequest n a \<Rightarrow> [n] | _ \<Rightarrow> []) es)"

text \<open>The media a list of effects asks the machine to add.\<close>

definition added_by :: "service_effect list \<Rightarrow> Media list" where
  "added_by es =
     concat (map (\<lambda>ev. case added_media ev of None \<Rightarrow> [] | Some x \<Rightarrow> [x]) (sent_back es))"

text \<open>
  A joined room receives a command: the machine forwards it to the handler with its
  context, and the events the handler sends back are fed to the machine in order. A
  media the handler sends back has a track, so the machine takes it without throwing.
\<close>

definition send_command ::
  "RoomMachineContext \<Rightarrow> RoomCommand \<Rightarrow> environment \<Rightarrow> room_conf \<times> service_effect list" where
  "send_command ctx command env =
     (let es = commandHandler ctx command env
      in (fst (roomMachine_run (room_active (connected joined), ctx) (sent_back es)), es))"

subsection \<open>performJoin and performLeave\<close>

text \<open>
  \<open>performJoin\<close>: the whole body stands under \<open>if (settings.produce)\<close>, so
  without it the promise resolves with nothing and no request is sent. A request that
  rejects rejects the promise, and so does a missing socket or a missing device, on
  which the first call throws.
\<close>

definition myPeer :: "RoomMachineContext \<Rightarrow> Peer" where
  "myPeer ctx =
     \<lparr>peer_id = Some (ctx_peerId ctx), peer_device = Some (ctx_browser ctx),
      peer_info = ctx_peerInfo ctx\<rparr>"

definition performJoin ::
  "RoomMachineContext \<Rightarrow> environment \<Rightarrow> service_effect list \<times> RoomMachineEvent" where
  "performJoin ctx env =
     (if \<not> produce (ctx_settings ctx) then ([], done_invoke_performJoin None)
      else if ctx_protoo ctx = None then ([], error_platform_performJoin)
      else
        (case createWebRtcTransport_result env True of
           Inl msg \<Rightarrow> ([ProtooRequest ''createWebRtcTransport'' (Some ''producing'')],
                       error_platform_performJoin)
         | Inr sendTransport \<Rightarrow>
             if ctx_mediasoupDevice ctx = None
             then ([ProtooRequest ''createWebRtcTransport'' (Some ''producing'')],
                   error_platform_performJoin)
             else
             (let es1 = [ProtooRequest ''createWebRtcTransport'' (Some ''producing'')];
                  recv = (if consume (ctx_settings ctx)
                          then Some (createWebRtcTransport_result env False) else None);
                  es2 = (if consume (ctx_settings ctx)
                         then [ProtooRequest ''createWebRtcTransport'' (Some ''consuming'')] else [])
              in case recv of
                   Some (Inl msg) \<Rightarrow> (es1 @ es2, error_platform_performJoin)
                 | _ \<Rightarrow>
                     (case join_peers env of
                        Inl msg \<Rightarrow>
                          (es1 @ es2 @ [ProtooRequest ''join'' (Some (ctx_peerId ctx))],
                           error_platform_performJoin)
                      | Inr peers \<Rightarrow>
                          (es1 @ es2 @ [ProtooRequest ''join'' (Some (ctx_peerId ctx))],
                           done_invoke_performJoin
                             (Some \<lparr>jr_peers = peers @ [myPeer ctx],
                                    jr_sendTransport = Some sendTransport,
                                    jr_recvTransport =
                                      (case recv of Some (Inr t) \<Rightarrow> Some t | _ \<Rightarrow> None),
                                    jr_mediasoupDevice = ctx_mediasoupDevice ctx\<rparr>))))))"

text \<open>
  \<open>performLeave\<close>: closes the consumer and the producer of every media (asking the
  server to close each producer, without awaiting the answer), closes both transports
  and awaits the Leave request. Without a socket the first request throws, and the
  promise rejects with what was closed before it.
\<close>

definition close_capabilities :: "Media \<Rightarrow> service_effect list" where
  "close_capabilities x =
     (case media_consumer x of None \<Rightarrow> [] | Some c \<Rightarrow> [CapabilityClose (cap_id c)]) @
     (case media_producer x of None \<Rightarrow> [] | Some p \<Rightarrow> [CapabilityClose (cap_id p)])"

definition close_transports :: "RoomMachineContext \<Rightarrow> service_effect list" where
  "close_transports ctx =
     (case ctx_sendTransport ctx of None \<Rightarrow> [] | Some t \<Rightarrow> [TransportClose (transport_id t)]) @
     (case ctx_recvTransport ctx of None \<Rightarrow> [] | Some t \<Rightarrow> [TransportClose (transport_id t)])"

definition performLeave ::
  "RoomMachineContext \<Rightarrow> environment \<Rightarrow> service_effect list \<times> RoomMachineEvent" where
  "performLeave ctx env =
     (if ctx_protoo ctx = None then
        (case dropWhile (\<lambda>x. media_producer x = None) (ctx_media ctx) of
           [] \<Rightarrow>
             (concat (map close_capabilities (ctx_media ctx)) @ close_transports ctx,
              error_platform_performLeave)
         | x # rest \<Rightarrow>
             (concat (map close_capabilities
                        (takeWhile (\<lambda>x. media_producer x = None) (ctx_media ctx))) @
              close_capabilities x,
              error_platform_performLeave))
      else
        (let es =
               concat (map (\<lambda>x.
                  close_capabilities x @
                  (case media_producer x of
                     None \<Rightarrow> []
                   | Some p \<Rightarrow> [ProtooRequest ''closeProducer'' (Some (cap_id p))]))
                 (ctx_media ctx)) @
               close_transports ctx @
               [ProtooRequest ''Leave'' None]
         in (es, case request_rejects env ''Leave'' None of
                   None \<Rightarrow> done_invoke_performLeave
                 | Some msg \<Rightarrow> error_platform_performLeave)))"

subsection \<open>socket\<close>

text \<open>The \<open>retry\<close> options a WebSocketTransport is created with; times in milliseconds.\<close>

record retry_options =
  retries :: "nat option"
  forever :: bool
  factor :: nat
  minTimeout :: nat
  maxTimeout :: nat

text \<open>The options of the \<open>socket\<close> service: \<open>0.5 * 1000\<close> and \<open>10 * 1000\<close>.\<close>

definition socket_retry :: retry_options where
  "socket_retry =
     \<lparr>retries = Some 30, forever = False, factor = 2, minTimeout = 500, maxTimeout = 10 * 1000\<rparr>"

text \<open>The options of \<open>Room.open\<close> in room.js.\<close>

definition Room_open_retry :: retry_options where
  "Room_open_retry =
     \<lparr>retries = None, forever = True, factor = 2, minTimeout = 100, maxTimeout = 10000\<rparr>"

text \<open>Whether the options bound the number of attempts.\<close>

definition retry_limit :: "retry_options \<Rightarrow> nat option" where
  "retry_limit opts = (if forever opts then None else retries opts)"

datatype protoo_event =
    on_protoo_open
  | on_protoo_failed
  | on_protoo_disconnected
  | on_protoo_close
  | on_protoo_request IncomingRequest
  | on_protoo_notification Notification

text \<open>
  What the \<open>socket\<close> service sends back for an event of the protoo peer \<open>p\<close>. On
  \<open>open\<close> it first loads the router capabilities into a new device (\<open>d\<close>). A
  diagnostic notification goes to the \<open>onDiagnostics\<close> callback of the context (when
  it has one) and not to the machine.
\<close>

definition socket ::
  "environment \<Rightarrow> nat \<Rightarrow> Device \<Rightarrow> protoo_event \<Rightarrow> service_effect list" where
  "socket env p d ev =
     (case ev of
        on_protoo_open \<Rightarrow>
          ProtooRequest ''getRouterRtpCapabilities'' None #
          (case request_rejects env ''getRouterRtpCapabilities'' None of
             Some msg \<Rightarrow> []
           | None \<Rightarrow> [SendBack (SOCKET_CONNECTED p d)])
      | on_protoo_failed \<Rightarrow> [SendBack SOCKET_FAILED]
      | on_protoo_disconnected \<Rightarrow> [SendBack SOCKET_DISCONNECTED]
      | on_protoo_close \<Rightarrow> [SendBack SOCKET_CLOSED]
      | on_protoo_request r \<Rightarrow> [SendBack (REQUEST r)]
      | on_protoo_notification n \<Rightarrow>
          if notification_name n \<in> set DIAGNOSTIC_NOTIFICATIONS then [OnDiagnostics n]
          else [SendBack (NOTIFICATION n)])"

section \<open>The older Media model (src/media.js)\<close>

text \<open>
  Each method is modelled to its end, an awaited call with its result, which is an
  argument of the model. The model registers a listener on its own \<open>change:track\<close>
  event in \<open>initialize\<close>; that listener runs inside every assignment of a different
  track. It calls \<open>activate\<close> without awaiting it, and what runs inside the assignment
  is \<open>activate\<close> up to its first \<open>await\<close> (\<open>Media_activate_begin\<close>); what follows that
  \<open>await\<close> runs after the method that made the assignment and is not part of it. The
  events of a producer or a consumer are inputs (the \<open>Media_on_\<close> functions), and so is
  what the watchers of the room do on \<open>triggerUpdate\<close>. The listener of
  \<open>change:state\<close> only reports the new state to the event log; its reports are left out
  of the effects.
\<close>

datatype Media_STATE =
    STATE_preparing
  | STATE_local
  | STATE_activating
  | STATE_active
  | STATE_paused
  | STATE_inactive

record consumer_js =
  c_id :: string
  c_track :: "track option"
  c_locallyPaused :: bool
  c_remotelyPaused :: bool
  c_closed :: bool
  c_codec :: "string option"

record producer_js =
  p_track :: "track option"
  p_closed :: bool
  p_codec :: "string option"

record Media_js =
  M_id :: string
  M_state :: Media_STATE
  M_peerId :: "string option"
  M_type :: "string option"
  M_deviceId :: "string option"
  M_track :: "track option"
  M_consumer :: "consumer_js option"
  M_producer :: "producer_js option"
  M_locallyPaused :: bool
  M_remotelyPaused :: bool
  M_dependants :: "string list"
  M_isHighFidelity :: bool
  M_displayName :: "string option"
  M_codec :: "string option"

record device_js =
  d_id :: string
  d_displayName :: string
  d_isHighFidelity :: bool
  d_getTrack :: "string + track option"

datatype Media_effect =
    logEvent string
  | triggerUpdate
  | track_stop track
  | consumer_receive
  | consumer_pause
  | consumer_resume
  | consumer_close
  | createProducer "track option"
  | producer_send
  | producer_pause
  | producer_resume
  | producer_close
  | producer_replaceTrack "track option"
  | updateDevices
  | device_getTrack string
  | clearTimeout
  | setTimeout_initializeLocalTrack nat

text \<open>The results of the awaited calls of the older model.\<close>

record Media_env =
  receive_result :: "string + track option"
  createProducer_result :: "string + producer_js"
  send_rejects :: "string option"
  replaceTrack_rejects :: "string option"
  devices :: "device_js list"


type_synonym Media_result = "Media_js \<times> Media_effect list"

definition isAlreadyActive :: "Media_js \<Rightarrow> bool" where
  "isAlreadyActive m =
     (M_state m = STATE_activating \<or> M_state m = STATE_active \<or> M_state m = STATE_paused)"

definition hasDependants :: "Media_js \<Rightarrow> bool" where
  "hasDependants m = (length (M_dependants m) > 0)"

definition paused_or_active :: "Media_js \<Rightarrow> Media_STATE" where
  "paused_or_active m =
     (if M_locallyPaused m \<or> M_remotelyPaused m then STATE_paused else STATE_active)"

definition Media_pause :: "Media_js \<Rightarrow> Media_effect list" where
  "Media_pause m =
     (if M_producer m \<noteq> None then [logEvent ''PauseProducerMedia'', producer_pause] else []) @
     (if M_consumer m \<noteq> None then [logEvent ''PauseConsumerMedia'', consumer_pause] else [])"

definition Media_unpause :: "Media_js \<Rightarrow> Media_effect list" where
  "Media_unpause m =
     (if M_producer m \<noteq> None then [logEvent ''ResumeProducerMedia'', producer_resume] else []) @
     (if M_consumer m \<noteq> None then [logEvent ''ResumeConsumerMedia'', consumer_resume] else [])"

definition track_usable :: "track option \<Rightarrow> bool" where
  "track_usable tr = (case tr of None \<Rightarrow> False | Some t \<Rightarrow> readyState t \<noteq> rs_ended)"

text \<open>
  \<open>updateTrack\<close>, with the listener of \<open>change:track\<close> as the argument \<open>on_change\<close>:
  the new model, the effects, and the message when the awaited \<open>replaceTrack\<close> throws
  (the state then stays where the code left it). The listener runs at the assignment
  \<open>this.track = track\<close>, before the code reads the state.
\<close>

definition Media_updateTrack_with ::
  "(Media_js \<Rightarrow> Media_result) \<Rightarrow> Media_env \<Rightarrow> Media_js \<Rightarrow> track option \<Rightarrow>
     Media_result \<times> string option" where
  "Media_updateTrack_with on_change env m tr =
     (if tr = M_track m then ((m, []), None)
      else if M_consumer m \<noteq> None then (on_change (m\<lparr>M_track := tr\<rparr>), None)
      else
        (let es0 = (case M_track m of None \<Rightarrow> [] | Some previousTrack \<Rightarrow> [track_stop previousTrack]);
             (m1, es1) = on_change (m\<lparr>M_track := tr\<rparr>);
             es = es0 @ es1
         in if M_state m1 = STATE_active then
              (case M_producer m1 of
                 None \<Rightarrow> ((m1\<lparr>M_state := STATE_activating\<rparr>, es), Some TypeError)
               | Some p \<Rightarrow>
                   (case replaceTrack_rejects env of
                      Some msg \<Rightarrow>
                        ((m1\<lparr>M_state := STATE_activating\<rparr>, es @ [producer_replaceTrack tr]), Some msg)
                    | None \<Rightarrow>
                        ((m1\<lparr>M_state := STATE_active\<rparr>, es @ [producer_replaceTrack tr]), None)))
            else if M_state m1 = STATE_paused then
              (case M_producer m1 of
                 None \<Rightarrow> ((m1, es), Some TypeError)
               | Some p \<Rightarrow> ((m1, es @ [producer_replaceTrack tr]), replaceTrack_rejects env))
            else ((m1, es), None)))"

text \<open>
  \<open>activate\<close> up to its first \<open>await\<close>. \<open>isRoomConnected\<close> is
  \<open>this.room.state === 'connected'\<close>. A paused consumer is unpaused; a call that the
  guard stops does nothing; else the state becomes \<open>activating\<close> and \<open>receive\<close> or
  \<open>send\<close> begins:
  \<^item> \<open>receive\<close> unpauses a media paused from the local side and is done, else it calls
    \<open>consumer.receive\<close> and awaits it;
  \<^item> \<open>send\<close> without a usable track calls \<open>initializeLocalTrack\<close>, which (there is no
    consumer, and there are dependants) calls \<open>updateDevices\<close> and awaits it;
  \<^item> \<open>send\<close> with a usable track creates the producer, calls \<open>updateTrack\<close> with the
    track of the producer, then calls \<open>producer.send\<close> and awaits it. The state is
    \<open>activating\<close> and there is no consumer, so the \<open>activate\<close> of the listener inside
    this \<open>updateTrack\<close> is stopped by the guard and the listener only triggers the
    update (lemma \<open>on_change_track_while_activating\<close>).
\<close>

definition Media_activate_begin :: "Media_env \<Rightarrow> bool \<Rightarrow> Media_js \<Rightarrow> Media_result" where
  "Media_activate_begin env isRoomConnected m =
     (if M_consumer m \<noteq> None \<and> M_state m = STATE_paused then (m, Media_unpause m)
      else if isAlreadyActive m \<or> \<not> isRoomConnected \<or> \<not> hasDependants m then (m, [])
      else
        (let m1 = m\<lparr>M_state := STATE_activating\<rparr>
         in if M_consumer m1 \<noteq> None then
              (if M_locallyPaused m1 then (m1, Media_unpause m1) else (m1, [consumer_receive]))
            else if \<not> track_usable (M_track m1) then (m1, [updateDevices])
            else
              (case createProducer_result env of
                 Inl msg \<Rightarrow> (m1, [createProducer (M_track m1)])
               | Inr p \<Rightarrow>
                   (let (m2, es2) =
                          fst (Media_updateTrack_with (\<lambda>x. (x, [triggerUpdate])) env
                                 (m1\<lparr>M_producer := Some p\<rparr>) (p_track p))
                    in (m2, createProducer (M_track m1) # es2 @ [producer_send])))))"

text \<open>The listener of \<open>change:track\<close>.\<close>

definition Media_on_change_track :: "Media_env \<Rightarrow> bool \<Rightarrow> Media_js \<Rightarrow> Media_result" where
  "Media_on_change_track env isRoomConnected m =
     (if M_track m \<noteq> None
      then (fst (Media_activate_begin env isRoomConnected m),
            snd (Media_activate_begin env isRoomConnected m) @ [triggerUpdate])
      else (m, [triggerUpdate]))"

text \<open>\<open>updateTrack\<close>.\<close>

definition Media_updateTrack ::
  "Media_env \<Rightarrow> bool \<Rightarrow> Media_js \<Rightarrow> track option \<Rightarrow> Media_result \<times> string option" where
  "Media_updateTrack env isRoomConnected m tr =
     Media_updateTrack_with (Media_on_change_track env isRoomConnected) env m tr"

text \<open>\<open>clearTrack\<close>: \<open>unset\<close> fires \<open>change:track\<close>, and the listener finds no track.\<close>

definition Media_clearTrack :: "Media_js \<Rightarrow> Media_result" where
  "Media_clearTrack m =
     (case M_track m of
        None \<Rightarrow> (m, [])
      | Some t \<Rightarrow> (m\<lparr>M_track := None\<rparr>, [track_stop t, triggerUpdate]))"

text \<open>
  \<open>close\<close>. A producer or consumer that is not closed yet is closed; \<open>closed\<close>
  is then set, as the object itself does.
\<close>

definition Media_close :: "Media_js \<Rightarrow> Media_result" where
  "Media_close m =
     (if M_state m = STATE_inactive then (m, [])
      else
        (let (m1, es1) = Media_clearTrack m;
             relocal = (M_consumer m1 = None \<and> hasDependants m1);
             m2 = m1\<lparr>M_state := (if relocal then STATE_local else STATE_inactive)\<rparr>;
             es2 = clearTimeout # (if relocal then [setTimeout_initializeLocalTrack 1000] else []);
             es3 = (case M_producer m2 of
                      None \<Rightarrow> []
                    | Some p \<Rightarrow> if p_closed p then [] else [producer_close]);
             es4 = (case M_consumer m2 of
                      None \<Rightarrow> []
                    | Some c \<Rightarrow> if c_closed c then [] else [consumer_close]);
             m3 = m2\<lparr>M_producer := map_option (\<lambda>p. p\<lparr>p_closed := True\<rparr>) (M_producer m2),
                     M_consumer := map_option (\<lambda>c. c\<lparr>c_closed := True\<rparr>) (M_consumer m2)\<rparr>
         in (m3, es1 @ es2 @ es3 @ es4)))"

text \<open>A device id is falsy when it is missing or empty.\<close>

definition truthy :: "string option \<Rightarrow> bool" where
  "truthy v = (case v of None \<Rightarrow> False | Some s \<Rightarrow> s \<noteq> [])"

text \<open>
  \<open>initializeLocalTrack\<close>. Any error inside is caught: the failure is logged, the
  track is dropped (which fires \<open>change:track\<close> when there was one) and the promise
  resolves.
\<close>

definition Media_initializeLocalTrack ::
  "Media_env \<Rightarrow> bool \<Rightarrow> Media_js \<Rightarrow> string option \<Rightarrow> Media_result" where
  "Media_initializeLocalTrack env isRoomConnected m deviceId =
     (if M_consumer m \<noteq> None then (m, [])
      else if M_dependants m = [] then (m, [])
      else
        (case (if \<not> truthy deviceId then (case devices env of [] \<Rightarrow> None | d # ds \<Rightarrow> Some d)
               else List.find (\<lambda>x. Some (d_id x) = deviceId) (devices env)) of
           None \<Rightarrow> (m\<lparr>M_state := STATE_inactive\<rparr>, [updateDevices])
         | Some device \<Rightarrow>
             (let es1 = updateDevices #
                        (case M_track m of None \<Rightarrow> [] | Some t \<Rightarrow> [track_stop t]) @
                        [device_getTrack (d_id device)];
                  m1 = m\<lparr>M_isHighFidelity := d_isHighFidelity device,
                          M_displayName := Some (d_displayName device),
                          M_deviceId := Some (d_id device)\<rparr>
              in case d_getTrack device of
                   Inl msg \<Rightarrow>
                     (m1\<lparr>M_track := None\<rparr>,
                      es1 @ logEvent ''InitializeTrackFailed'' #
                            (if M_track m1 \<noteq> None then [triggerUpdate] else []))
                 | Inr None \<Rightarrow> (m1\<lparr>M_state := STATE_inactive\<rparr>, es1)
                 | Inr (Some newTrack) \<Rightarrow>
                     (let m2 = (if isAlreadyActive m1 then m1 else m1\<lparr>M_state := STATE_local\<rparr>)
                      in case Media_updateTrack env isRoomConnected m2 (Some newTrack) of
                           ((m3, es3), None) \<Rightarrow> (m3, es1 @ es3)
                         | ((m3, es3), Some msg) \<Rightarrow>
                             (m3\<lparr>M_track := None\<rparr>,
                              es1 @ es3 @ logEvent ''InitializeTrackFailed'' #
                                (if M_track m3 \<noteq> None then [triggerUpdate] else []))))))"

text \<open>\<open>receive\<close> and \<open>send\<close>: the result, and the message when they throw.\<close>

definition Media_receive ::
  "Media_env \<Rightarrow> bool \<Rightarrow> Media_js \<Rightarrow> Media_result \<times> string option" where
  "Media_receive env isRoomConnected m =
     (if M_locallyPaused m then ((m, Media_unpause m), None)
      else
        (case M_consumer m of
           None \<Rightarrow> ((m, []), Some TypeError)
         | Some c \<Rightarrow>
             (case receive_result env of
                Inl msg \<Rightarrow> ((m, [consumer_receive]), Some msg)
              | Inr tr \<Rightarrow>
                  (case c_codec c of
                     None \<Rightarrow> ((m, [consumer_receive]), Some TypeError)
                   | Some cn \<Rightarrow>
                       (let m1 = m\<lparr>M_locallyPaused := c_locallyPaused c,
                                   M_remotelyPaused := c_remotelyPaused c,
                                   M_codec := Some cn\<rparr>;
                            m2 = m1\<lparr>M_state := paused_or_active m1\<rparr>
                        in case Media_updateTrack env isRoomConnected m2 tr of
                             ((m3, es3), err) \<Rightarrow> ((m3, consumer_receive # es3), err))))))"

definition Media_send ::
  "Media_env \<Rightarrow> bool \<Rightarrow> Media_js \<Rightarrow> Media_result \<times> string option" where
  "Media_send env isRoomConnected m =
     (let (m1, es1) = (if track_usable (M_track m) then (m, [])
                       else Media_initializeLocalTrack env isRoomConnected m (M_deviceId m))
      in if M_track m1 = None then ((m1\<lparr>M_state := STATE_inactive\<rparr>, es1), None)
         else
           (case createProducer_result env of
              Inl msg \<Rightarrow> ((m1, es1 @ [createProducer (M_track m1)]), Some msg)
            | Inr p \<Rightarrow>
                (let m2 = m1\<lparr>M_producer := Some p\<rparr>;
                     ((m3, es3), err3) = Media_updateTrack env isRoomConnected m2 (p_track p);
                     es = es1 @ [createProducer (M_track m1)] @ es3 @ [producer_send]
                 in case send_rejects env of
                      Some msg \<Rightarrow> ((m3, es), Some msg)
                    | None \<Rightarrow>
                        (case p_codec p of
                           None \<Rightarrow>
                             ((m3, es @ (if M_locallyPaused m3 then [producer_pause] else [])),
                              Some TypeError)
                         | Some cn \<Rightarrow>
                             (let m4 = m3\<lparr>M_codec := Some cn\<rparr>
                              in ((m4\<lparr>M_state := paused_or_active m4\<rparr>,
                                   es @ (if M_locallyPaused m3 then [producer_pause] else [])),
                                  None))))))"

text \<open>
  \<open>activate\<close>, awaited to its end. An error of \<open>receive\<close> or \<open>send\<close> is caught and
  the media closed.
\<close>

definition Media_activate :: "Media_env \<Rightarrow> bool \<Rightarrow> Media_js \<Rightarrow> Media_result" where
  "Media_activate env isRoomConnected m =
     (if M_consumer m \<noteq> None \<and> M_state m = STATE_paused then (m, Media_unpause m)
      else if isAlreadyActive m \<or> \<not> isRoomConnected \<or> \<not> hasDependants m then (m, [])
      else
        (let m1 = m\<lparr>M_state := STATE_activating\<rparr>
         in case (if M_consumer m1 \<noteq> None then Media_receive env isRoomConnected m1
                  else Media_send env isRoomConnected m1) of
              ((m2, es), None) \<Rightarrow> (m2, es)
            | ((m2, es), Some msg) \<Rightarrow> (fst (Media_close m2), es @ snd (Media_close m2))))"

text \<open>Calls \<open>activate\<close> a number of times in a row.\<close>

fun Media_activate_times :: "nat \<Rightarrow> Media_env \<Rightarrow> bool \<Rightarrow> Media_js \<Rightarrow> Media_result" where
  "Media_activate_times 0 env isRoomConnected m = (m, [])"
| "Media_activate_times (Suc n) env isRoomConnected m =
     (let (m1, es1) = Media_activate env isRoomConnected m;
          (m2, es2) = Media_activate_times n env isRoomConnected m1
      in (m2, es1 @ es2))"





text \<open>
  \<open>stopUsingTrack\<close>: the dependant leaves the set of dependants (\<open>useTrack\<close> puts
  it there); the call throws when the dependant id is falsy.
\<close>

definition Media_stopUsingTrack :: "string \<Rightarrow> Media_js \<Rightarrow> string + Media_result" where
  "Media_stopUsingTrack dependantId m =
     (if dependantId = []
      then Inl ''Cannot call stopUsingTrack() without specifying a dependant ID''
      else
        (let m0 = m\<lparr>M_dependants := filter (\<lambda>d. d \<noteq> dependantId) (M_dependants m)\<rparr>
         in if M_dependants m0 = [] then
              Inr (if M_consumer m0 \<noteq> None then (m0, Media_pause m0) else Media_close m0)
            else Inr (m0, [])))"

section \<open>The older Room model (src/room.js)\<close>

datatype Room_STATE =
    STATE_connecting
  | STATE_room_preparing
  | STATE_connected
  | STATE_reconnecting
  | STATE_closed

text \<open>
  A peer of the roster: its id and the shared properties the room reads. In the room,
  \<open>R_protoo\<close> says whether the socket has been created.
\<close>

record Peer_js =
  P_id :: string
  P_displayName :: string
  P_isHost :: bool
  P_isUser :: bool
  P_isVisible :: bool

record Room_js =
  R_state :: Room_STATE
  R_myPeer :: Peer_js
  R_peers :: "Peer_js list"
  R_media :: "Media_js list"
  R_hasStateMismatch :: bool
  R_isReconcilingState :: bool
  R_intentToJoin :: bool
  R_isHost :: bool
  R_isVisible :: bool
  R_maxGuests :: nat
  R_send :: bool
  R_recv :: bool
  R_eventLog :: "string list"
  R_activeSpeaker :: "string option"
  R_protoo :: bool

text \<open>
  The effects of the room: the answer to an inbound request, a logged event (with the
  \<open>kind\<close> of a StateException), calls on the mediasoup room and the socket, and the
  effects of a media model (by media id).
\<close>

datatype Room_effect =
    accept
  | reject nat string
  | Room_logEvent string "string option"
  | mediasoupRoom_leave
  | mediasoupRoom_join
  | mediasoupRoom_createTransport string
  | mediasoupRoom_receiveNotification
  | protoo_close_socket
  | open_socket retry_options
  | resolve_open
  | sendEvent string
  | onMessage
  | of_media string "Media_effect list"
  | throws string

text \<open>The payload of a protoo request, by shape.\<close>

datatype protoo_data =
    event_data string string "string option" bool
  | heartbeat_data "Peer_js list"
  | active_speaker_data "string option"
  | other_data

record protoo_request_js =
  request_method :: string
  request_payload :: protoo_data

type_synonym Room_result = "Room_js \<times> Room_effect list"

text \<open>\<open>exit(true)\<close>: the room stops being visible, and its listener copies that to \<open>myPeer\<close>.\<close>

definition Room_exit :: "Room_js \<Rightarrow> Room_js" where
  "Room_exit r = r\<lparr>R_isVisible := False, R_myPeer := (R_myPeer r)\<lparr>P_isVisible := False\<rparr>\<rparr>"

text \<open>Closes every media of the room, keeping the effects of each under its id.\<close>

definition close_all_media :: "Media_js list \<Rightarrow> Media_js list \<times> Room_effect list" where
  "close_all_media ms =
     (map (\<lambda>x. fst (Media_close x)) ms, map (\<lambda>x. of_media (M_id x) (snd (Media_close x))) ms)"

definition Room_close :: "Room_js \<Rightarrow> bool \<Rightarrow> Room_result" where
  "Room_close r withIntentToLeave =
     (if R_state r = STATE_closed then (r, [])
      else
        (let r1 = (if withIntentToLeave then Room_exit r else r);
             (ms, es) = close_all_media (R_media r1)
         in (r1\<lparr>R_intentToJoin := False, R_media := ms, R_state := STATE_closed\<rparr>,
             [Room_logEvent ''CloseRoom'' None, mediasoupRoom_leave] @ es @
             (if R_protoo r then [protoo_close_socket] else []))))"

text \<open>
  \<open>open\<close> up to the promise it returns: the state becomes \<open>connecting\<close> and the
  socket is created with the retry options of \<open>Room_open_retry\<close>. The promise
  resolves in \<open>Room_on_open\<close>.
\<close>

definition Room_open :: "Room_js \<Rightarrow> Room_result" where
  "Room_open r =
     (r\<lparr>R_state := STATE_connecting, R_protoo := True\<rparr>, [open_socket Room_open_retry])"

definition Room_join :: "Room_js \<Rightarrow> Room_result" where
  "Room_join r =
     (let r1 = r\<lparr>R_state := STATE_room_preparing, R_intentToJoin := True\<rparr>;
          r2 = (if \<not> R_isHost r1
                then r1\<lparr>R_isVisible := True, R_myPeer := (R_myPeer r1)\<lparr>P_isVisible := True\<rparr>\<rparr>
                else r1)
      in (r2, [Room_logEvent ''JoinRoom'' None, mediasoupRoom_join]))"

text \<open>The listener of the socket's \<open>open\<close> event.\<close>

definition Room_on_open :: "Room_js \<Rightarrow> Room_result" where
  "Room_on_open r =
     (let r1 = r\<lparr>R_state := STATE_connecting\<rparr>
      in if R_intentToJoin r1 then Room_join r1 else (r1, [resolve_open]))"

text \<open>
  \<open>_handlePeer\<close>: a peer is ignored when the room is full, else added to the roster
  (a collection holds one model per id). The consumers of the peer are not modelled.
\<close>

definition Room_handlePeer :: "Room_js \<Rightarrow> Peer_js \<Rightarrow> Room_js \<times> bool" where
  "Room_handlePeer r peer =
     (let guestPeers = length (filter (\<lambda>x. \<not> P_isHost x \<and> P_isUser x) (R_peers r @ [R_myPeer r]))
      in if P_isUser (R_myPeer r) \<and> P_isUser peer \<and> \<not> P_isHost peer \<and> guestPeers \<ge> R_maxGuests r
         then (r, True)
         else (if P_id peer \<in> set (map P_id (R_peers r)) then r
               else r\<lparr>R_peers := R_peers r @ [peer]\<rparr>, False))"

text \<open>
  \<open>_onJoin\<close>, with the peers the mediasoup room reports: the transports are created,
  every peer is handled, the room becomes \<open>connected\<close> and every media is activated.
\<close>

definition Room_onJoin :: "Media_env \<Rightarrow> Room_js \<Rightarrow> Peer_js list \<Rightarrow> Room_result" where
  "Room_onJoin env r peers =
     (let r1 = fold (\<lambda>p acc. fst (Room_handlePeer acc p)) peers r;
          r2 = r1\<lparr>R_state := STATE_connected\<rparr>;
          acts = map (Media_activate env True) (R_media r2)
      in (r2\<lparr>R_media := map fst acts\<rparr>,
          (if R_send r then [mediasoupRoom_createTransport ''send''] else []) @
          (if R_recv r then [mediasoupRoom_createTransport ''recv''] else []) @
          [sendEvent ''peerdata''] @
          map (\<lambda>(m, es). of_media (M_id m) es) acts))"

text \<open>\<open>leave\<close>, and the listener of the socket's \<open>disconnected\<close> event.\<close>

definition Room_leave :: "Room_js \<Rightarrow> bool \<Rightarrow> Room_result" where
  "Room_leave r withIntentToRejoin =
     (let r1 = (if withIntentToRejoin then r else Room_exit r);
          (ms, es) = close_all_media (R_media r1)
      in (r1\<lparr>R_intentToJoin := withIntentToRejoin, R_state := STATE_room_preparing, R_media := ms\<rparr>,
          [Room_logEvent ''LeaveRoom'' None] @ es @ [mediasoupRoom_leave]))"

definition Room_on_disconnected :: "Room_js \<Rightarrow> Room_result" where
  "Room_on_disconnected r =
     (let (r1, es) = Room_leave r (R_state r = STATE_connected)
      in (r1\<lparr>R_state := STATE_reconnecting\<rparr>, es))"

text \<open>Changes the first element of a list that satisfies \<open>P\<close>, as \<open>find\<close> followed by an update does.\<close>

fun update_first :: "('a \<Rightarrow> bool) \<Rightarrow> ('a \<Rightarrow> 'a) \<Rightarrow> 'a list \<Rightarrow> 'a list" where
  "update_first P f [] = []"
| "update_first P f (x # xs) = (if P x then f x # xs else x # update_first P f xs)"

text \<open>
  The data sync at the end of a heartbeat: for every peer the server lists, in order,
  the first local peer of that id takes its shared properties.
\<close>

definition set_appData :: "Peer_js \<Rightarrow> Peer_js \<Rightarrow> Peer_js" where
  "set_appData peerData peer =
     peer\<lparr>P_displayName := P_displayName peerData, P_isHost := P_isHost peerData,
          P_isUser := P_isUser peerData, P_isVisible := P_isVisible peerData\<rparr>"

definition sync_peers :: "Peer_js list \<Rightarrow> Peer_js list \<Rightarrow> Peer_js list" where
  "sync_peers peers localPeers =
     fold (\<lambda>peerData. update_first (\<lambda>peer. P_id peer = P_id peerData) (set_appData peerData))
       peers localPeers"

text \<open>
  The heartbeat. \<open>localPeers\<close> is \<open>[myPeer, ...peers]\<close>. When the sync changes a
  shared property of \<open>myPeer\<close>, the listener of \<open>initialize\<close> copies the shared
  properties to the room.
\<close>

definition heartbeat :: "Room_js \<Rightarrow> Peer_js list \<Rightarrow> Room_result" where
  "heartbeat r peers =
     (if R_state r \<noteq> STATE_connected then (r, [accept])
      else
        (let localPeers = R_myPeer r # R_peers r;
             (r1, es1) =
               (if \<not> R_hasStateMismatch r \<and> length peers \<noteq> length localPeers
                then (r\<lparr>R_hasStateMismatch := True\<rparr>,
                      [Room_logEvent ''StateException'' (Some ''PeerMismatch'')])
                else if R_hasStateMismatch r
                then (r\<lparr>R_hasStateMismatch := False, R_isReconcilingState := False\<rparr>,
                      [Room_logEvent ''StateRecovery'' None])
                else (r, []));
             (r2, es2) =
               (if R_hasStateMismatch r1 \<and> \<not> R_isReconcilingState r1
                then (let (rc, ec) = Room_close (r1\<lparr>R_isReconcilingState := True\<rparr>) False;
                          (ro, eo) = Room_open rc
                      in (ro, ec @ eo))
                else (r1, []));
             synced = sync_peers peers localPeers;
             r3 = (if hd synced \<noteq> R_myPeer r2
                   then r2\<lparr>R_isHost := P_isHost (hd synced), R_isVisible := P_isVisible (hd synced)\<rparr>
                   else r2)
         in (r3\<lparr>R_myPeer := hd synced, R_peers := tl synced\<rparr>, accept # es1 @ es2)))"

definition is_device_event :: "string \<Rightarrow> bool" where
  "is_device_event name = (name = ''isHighFidelityChanged'' \<or> name = ''ChangeProducerDevice'')"

text \<open>
  \<open>_handleProtooRequest\<close>: the switch over \<open>request.method\<close>, with its default
  case. A payload of another shape than the case reads makes the handler throw after
  it has accepted.
\<close>

definition Room_handleProtooRequest :: "Room_js \<Rightarrow> protoo_request_js \<Rightarrow> Room_result" where
  "Room_handleProtooRequest r request =
     (if request_method request = ''event'' then
        (case request_payload request of
           event_data name peer deviceType isHighFidelity \<Rightarrow>
             ((if is_device_event name
               then r\<lparr>R_media :=
                        update_first (\<lambda>x. M_peerId x = Some peer \<and> M_type x = deviceType)
                          (\<lambda>x. x\<lparr>M_isHighFidelity := isHighFidelity\<rparr>) (R_media r)\<rparr>
               else r)\<lparr>R_eventLog := R_eventLog r @ [name]\<rparr>,
              [accept])
         | _ \<Rightarrow> (r, [accept, throws TypeError]))
      else if request_method request = ''heartbeat'' then
        (case request_payload request of
           heartbeat_data peers \<Rightarrow> heartbeat r peers
         | _ \<Rightarrow> if R_state r \<noteq> STATE_connected then (r, [accept])
                else (r, [accept, throws TypeError]))
      else if request_method request = ''mediasoup-notification'' then
        (r, [accept, mediasoupRoom_receiveNotification])
      else if request_method request = ''active-speaker'' then
        (case request_payload request of
           active_speaker_data peerName \<Rightarrow>
             (r\<lparr>R_activeSpeaker :=
                  (if peerName = Some (P_id (R_myPeer r)) then Some ''Self''
                   else if truthy peerName then
                     map_option P_displayName
                       (List.find (\<lambda>x. Some (P_id x) = peerName) (R_peers r))
                   else None)\<rparr>,
              [accept])
         | _ \<Rightarrow> (r, [accept, throws TypeError]))
      else if request_method request = ''message'' then (r, [accept, onMessage])
      else (r, [reject 404 ''unknown method'']))"

text \<open>Runs a list of requests in arrival order.\<close>

fun Room_handle_all :: "Room_js \<Rightarrow> protoo_request_js list \<Rightarrow> Room_result" where
  "Room_handle_all r [] = (r, [])"
| "Room_handle_all r (q # qs) =
     (let (r1, es1) = Room_handleProtooRequest r q;
          (r2, es2) = Room_handle_all r1 qs
      in (r2, es1 @ es2))"

subsection \<open>addMedia\<close>













section \<open>Concrete rooms and media\<close>

text \<open>The media id a command names (five commands name one).\<close>

fun command_mediaId :: "RoomCommand \<Rightarrow> string option" where
  "command_mediaId (PauseMedia i) = Some i"
| "command_mediaId (ResumeMedia i) = Some i"
| "command_mediaId (StopSendingMedia i) = Some i"
| "command_mediaId (SwitchVideo i d) = Some i"
| "command_mediaId (SwitchAudio i d) = Some i"
| "command_mediaId c = None"

definition chrome :: Browser where
  "chrome = \<lparr>flag = ''chrome'', browser_name = ''Chrome'', browser_version = ''90''\<rparr>"

definition peerX :: Peer where
  "peerX = \<lparr>peer_id = Some ''peerX'', peer_device = Some chrome, peer_info = None\<rparr>"

definition device0 :: Device where
  "device0 =
     \<lparr>canProduce = (\<lambda>k. True),
      codecs = [\<lparr>mimeType = ''audio/opus'', codec_kind = audio\<rparr>,
                \<lparr>mimeType = ''video/VP8'', codec_kind = video\<rparr>]\<rparr>"

definition settings0 :: RoomSettings where
  "settings0 =
     \<lparr>produce = True, consume = True, forceTcp = False, forceH264 = False,
      forceVP9 = False, useSimulcast = False\<rparr>"

definition track0 :: track where
  "track0 = \<lparr>track_id = 0, readyState = rs_live\<rparr>"

definition trackA :: track where
  "trackA = \<lparr>track_id = 1, readyState = rs_live\<rparr>"

definition trackB :: track where
  "trackB = \<lparr>track_id = 2, readyState = rs_live\<rparr>"

text \<open>A joined room with the roster \<open>[peerX, self]\<close> and no media.\<close>

definition ctx0 :: RoomMachineContext where
  "ctx0 =
     \<lparr>ctx_id = ''room'', ctx_socketUrl = ''wss://host:3443'', ctx_peerId = ''me'',
      ctx_peerInfo = None,
      ctx_peers = [peerX, \<lparr>peer_id = Some ''me'', peer_device = Some chrome, peer_info = None\<rparr>],
      ctx_media = [], ctx_protoo = Some 1, ctx_browser = chrome,
      ctx_sendTransport = Some \<lparr>transport_id = ''send''\<rparr>,
      ctx_recvTransport = Some \<lparr>transport_id = ''recv''\<rparr>,
      ctx_mediasoupDevice = Some device0, ctx_settings = settings0\<rparr>"

text \<open>An environment in which every call resolves; \<open>pid\<close> is the id of the next producer.\<close>

definition env_resolves :: "string \<Rightarrow> environment" where
  "env_resolves pid =
     \<lparr>request_rejects = (\<lambda>name arg. None),
      getUserMedia_result = (\<lambda>k d. Inr (Some track0)),
      produce_result = (\<lambda>t. Inr \<lparr>cap_id = pid, cap_kind = audio, cap_paused = False, cap_closed = False\<rparr>),
      consume_result = (\<lambda>d. Inr (\<lparr>cap_id = nc_id d, cap_kind = nc_kind d, cap_paused = False,
                                    cap_closed = False\<rparr>, track0)),
      createWebRtcTransport_result = (\<lambda>producing. Inr \<lparr>transport_id = ''t''\<rparr>),
      join_peers = Inr [peerX]\<rparr>"


text \<open>A produced media of the machine, bound to \<open>track0\<close>.\<close>

definition produced_media :: Media where
  "produced_media =
     \<lparr>media_id = ''p1'', media_kind = video, media_type = ''webcam'', media_label = None,
      media_track = Some track0, media_consumer = None,
      media_producer = Some \<lparr>cap_id = ''p1'', cap_kind = video, cap_paused = False, cap_closed = False\<rparr>,
      media_deviceId = Some ''cam1'', media_peerId = Some ''me'', media_actor = Some ''p1''\<rparr>"

text \<open>A consumed media whose consumer is closed.\<close>

definition closed_media :: Media where
  "closed_media =
     \<lparr>media_id = ''c2'', media_kind = audio, media_type = ''microphone'', media_label = None,
      media_track = Some track0,
      media_consumer = Some \<lparr>cap_id = ''c2'', cap_kind = audio, cap_paused = True, cap_closed = True\<rparr>,
      media_producer = None,
      media_deviceId = None, media_peerId = Some ''peerX'', media_actor = Some ''c2''\<rparr>"

text \<open>A produced media whose producer is closed.\<close>

definition stopped_media :: Media where
  "stopped_media =
     \<lparr>media_id = ''p3'', media_kind = video, media_type = ''webcam'', media_label = None,
      media_track = Some track0, media_consumer = None,
      media_producer = Some \<lparr>cap_id = ''p3'', cap_kind = video, cap_paused = True, cap_closed = True\<rparr>,
      media_deviceId = Some ''cam1'', media_peerId = Some ''me'', media_actor = Some ''p3''\<rparr>"

definition Media_env0 :: Media_env where
  "Media_env0 =
     \<lparr>receive_result = Inr (Some track0),
      createProducer_result = Inr \<lparr>p_track = Some track0, p_closed = False, p_codec = Some ''opus''\<rparr>,
      send_rejects = None, replaceTrack_rejects = None, devices = []\<rparr>"

text \<open>A consumed media of the older model, receiving \<open>track0\<close>.\<close>

definition consumer0 :: consumer_js where
  "consumer0 =
     \<lparr>c_id = ''c1'', c_track = Some track0, c_locallyPaused = False,
      c_remotelyPaused = False, c_closed = False, c_codec = Some ''VP8''\<rparr>"

definition consumed_js :: Media_js where
  "consumed_js =
     \<lparr>M_id = ''c1'', M_state = STATE_active, M_peerId = Some ''peerX'',
      M_type = Some ''webcam'', M_deviceId = Some ''cam1'', M_track = Some track0,
      M_consumer = Some consumer0,
      M_producer = None, M_locallyPaused = False, M_remotelyPaused = False,
      M_dependants = [], M_isHighFidelity = False, M_displayName = None,
      M_codec = Some ''VP8''\<rparr>"


text \<open>A local media of the older model that nothing depends on yet.\<close>

definition local_js :: Media_js where
  "local_js =
     \<lparr>M_id = ''m1'', M_state = STATE_preparing, M_peerId = Some ''me'',
      M_type = Some ''webcam'', M_deviceId = Some ''cam1'', M_track = None,
      M_consumer = None, M_producer = None, M_locallyPaused = False,
      M_remotelyPaused = False, M_dependants = [], M_isHighFidelity = False,
      M_displayName = None, M_codec = None\<rparr>"

definition guest :: "string \<Rightarrow> Peer_js" where
  "guest i = \<lparr>P_id = i, P_displayName = ''Guest'', P_isHost = False, P_isUser = True, P_isVisible = True\<rparr>"

text \<open>
  A connected room of two guests (the local one and \<open>A\<close>) that is full: a third guest
  \<open>B\<close> is on the server but \<open>_handlePeer\<close> ignores it.
\<close>

definition full_room :: Room_js where
  "full_room =
     \<lparr>R_state = STATE_connected, R_myPeer = guest ''me'', R_peers = [guest ''A''],
      R_media = [], R_hasStateMismatch = False, R_isReconcilingState = False,
      R_intentToJoin = True, R_isHost = False, R_isVisible = True, R_maxGuests = 2,
      R_send = True, R_recv = True, R_eventLog = [], R_activeSpeaker = None,
      R_protoo = True\<rparr>"

definition server_roster :: "Peer_js list" where
  "server_roster = [guest ''me'', guest ''A'', guest ''B'']"

text \<open>
  One forced reconnect seen to its end: the socket opens, \<open>open\<close> resolves and its
  continuation joins, and \<open>_onJoin\<close> handles the peers \<open>A\<close> and \<open>B\<close> of the room.
\<close>

definition rejoined :: "Room_js \<Rightarrow> Room_js" where
  "rejoined r =
     fst (Room_onJoin Media_env0 (fst (Room_join (fst (Room_on_open r)))) [guest ''A'', guest ''B''])"

definition heartbeat_request :: protoo_request_js where
  "heartbeat_request =
     \<lparr>request_method = ''heartbeat'', request_payload = heartbeat_data server_roster\<rparr>"

text \<open>The full room after its first heartbeat and the rejoin, and after its second.\<close>

definition after_first_heartbeat :: Room_js where
  "after_first_heartbeat = rejoined (fst (Room_handleProtooRequest full_room heartbeat_request))"

definition after_second_heartbeat :: Room_js where
  "after_second_heartbeat = fst (Room_handleProtooRequest after_first_heartbeat heartbeat_request)"




text \<open>How often a list of effects closes the room and opens the socket again.\<close>

definition reconnects :: "Room_effect list \<Rightarrow> nat" where
  "reconnects es = length (filter (\<lambda>e. case e of open_socket opts \<Rightarrow> True | _ \<Rightarrow> False) es)"

section \<open>Properties\<close>

subsection \<open>Reconnection of the room machine\<close>

text \<open>
  C1, as the machine has it. From \<open>joined\<close>, SOCKET.DISCONNECTED leads to
  \<open>reconnecting\<close> and the next SOCKET.CONNECTED to \<open>connected\<close>, which is entered at
  its initial state \<open>waiting\<close> (there is no history state). The context, and with it
  the roster and the media list, is the same throughout, and the only services started
  are the request and the notification handler: \<open>performJoin\<close> is not invoked.
\<close>

theorem reconnect_ends_in_connected_waiting:
  "roomMachine (room_active (connected joined), ctx) SOCKET_DISCONNECTED =
     ((room_active reconnecting, ctx),
      [StopService CommandHandler, StopService RequestHandler, StopService NotificationHandler]) \<and>
   roomMachine (room_active reconnecting, ctx) (SOCKET_CONNECTED p d) =
     ((room_active (connected waiting), ctx),
      [StartService RequestHandler, StartService NotificationHandler])"
  by (simp add: roomMachine_def on_active_state_def on_connected_state_def on_connected_def
      exit_connected_def enter_connected_def)

text \<open>The two steps of C1 run on the joined room \<open>ctx0\<close>.\<close>

theorem reconnect_ends_in_connected_waiting_witness:
  "roomMachine_run (room_active (connected joined), ctx0)
       [SOCKET_DISCONNECTED, SOCKET_CONNECTED 1 device0] =
     ((room_active (connected waiting), ctx0),
      [StopService CommandHandler, StopService RequestHandler, StopService NotificationHandler,
       StartService RequestHandler, StartService NotificationHandler])"
  using reconnect_ends_in_connected_waiting [of ctx0 1 device0] by simp

text \<open>
  C1 as stated fails: after \<open>disconnected\<close> and \<open>connected\<close> the joined room
  \<open>ctx0\<close> is not in \<open>joined\<close>.
\<close>

theorem reconnect_does_not_end_in_joined:
  "fst (fst (roomMachine_run (room_active (connected joined), ctx0)
       [SOCKET_DISCONNECTED, SOCKET_CONNECTED 1 device0])) \<noteq> room_active (connected joined)"
  by (simp add: roomMachine_def on_active_state_def on_connected_state_def on_connected_def
      exit_connected_def enter_connected_def)

subsection \<open>The heartbeat of the older room\<close>

lemma reconnects_append: "reconnects (xs @ ys) = reconnects xs + reconnects ys"
  by (simp add: reconnects_def)

lemma reconnects_close: "reconnects (snd (Room_close r b)) = 0"
  by (auto simp: Room_close_def close_all_media_def reconnects_def split_beta Let_def
      filter_empty_conv)

text \<open>
  A connected room whose flag is clear and whose roster differs in length from the
  server's sets the flag and logs the StateException.
\<close>

lemma heartbeat_detects_mismatch:
  assumes "R_state r = STATE_connected" "\<not> R_hasStateMismatch r"
    "length peers \<noteq> length (R_myPeer r # R_peers r)"
  shows "R_hasStateMismatch (fst (heartbeat r peers)) \<and>
         Room_logEvent ''StateException'' (Some ''PeerMismatch'') \<in> set (snd (heartbeat r peers))"
  using assms
  by (simp add: heartbeat_def Let_def split_beta Room_close_def Room_open_def close_all_media_def)

text \<open>
  A connected room whose flag is set clears both flags and reports a recovery,
  whatever the two lengths are: the branch does not compare them.
\<close>

lemma heartbeat_clears_flags:
  assumes "R_state r = STATE_connected" "R_hasStateMismatch r"
  shows "\<not> R_hasStateMismatch (fst (heartbeat r peers)) \<and>
         \<not> R_isReconcilingState (fst (heartbeat r peers)) \<and>
         snd (heartbeat r peers) = [accept, Room_logEvent ''StateRecovery'' None]"
  using assms by (simp add: heartbeat_def Let_def split_beta)

text \<open>No reconnect is forced while the reconciliation flag is set.\<close>

lemma heartbeat_in_flight:
  assumes "R_isReconcilingState r"
  shows "reconnects (snd (heartbeat r peers)) = 0"
  using assms by (simp add: heartbeat_def Let_def split_beta reconnects_def)

text \<open>A mismatch that is detected with both flags clear forces one reconnect.\<close>

lemma heartbeat_reconnects_when_detected:
  assumes "R_state r = STATE_connected" "\<not> R_hasStateMismatch r" "\<not> R_isReconcilingState r"
    "length peers \<noteq> length (R_myPeer r # R_peers r)"
  shows "reconnects (snd (heartbeat r peers)) = 1"
  using assms
    reconnects_close [of "r\<lparr>R_hasStateMismatch := True, R_isReconcilingState := True\<rparr>" False]
  by (simp add: heartbeat_def Let_def split_beta reconnects_append Room_open_def)
    (simp add: reconnects_def)

lemma after_first_heartbeat_eq:
  "after_first_heartbeat = full_room\<lparr>R_hasStateMismatch := True, R_isReconcilingState := True\<rparr>"
  by (simp add: after_first_heartbeat_def rejoined_def heartbeat_request_def
      Room_handleProtooRequest_def heartbeat_def full_room_def server_roster_def guest_def
      Room_close_def Room_open_def close_all_media_def Room_on_open_def Room_join_def
      Room_onJoin_def Room_handlePeer_def sync_peers_def set_appData_def Let_def)

text \<open>
  The listener of a peer's \<open>close\<close> event takes the peer off the roster. When the
  peers close while the room is left and the roster is empty at the rejoin, the rejoin
  ends in the same room.
\<close>

lemma rejoined_from_empty_roster:
  "rejoined ((fst (Room_handleProtooRequest full_room heartbeat_request))\<lparr>R_peers := []\<rparr>) =
     after_first_heartbeat"
  by (simp add: after_first_heartbeat_eq)
    (simp add: rejoined_def heartbeat_request_def
      Room_handleProtooRequest_def heartbeat_def full_room_def server_roster_def guest_def
      Room_close_def Room_open_def close_all_media_def Room_on_open_def Room_join_def
      Room_onJoin_def Room_handlePeer_def sync_peers_def set_appData_def Let_def)

text \<open>
  C2, at a mismatch that lasts. The full room holds two peers and the server reports
  three in every heartbeat. The first heartbeat logs the mismatch and forces one
  reconnect. After the rejoin the roster still holds two peers; the second heartbeat
  nevertheless reports a recovery and clears both flags; the third detects the same
  mismatch again and forces a second reconnect.
\<close>

theorem persistent_mismatch_reconnects_again:
  "reconnects (snd (Room_handleProtooRequest full_room heartbeat_request)) = 1 \<and>
   R_state after_first_heartbeat = STATE_connected \<and>
   length (R_myPeer after_first_heartbeat # R_peers after_first_heartbeat) = 2 \<and>
   length server_roster = 3 \<and>
   snd (Room_handleProtooRequest after_first_heartbeat heartbeat_request) =
     [accept, Room_logEvent ''StateRecovery'' None] \<and>
   R_state after_second_heartbeat = STATE_connected \<and>
   \<not> R_hasStateMismatch after_second_heartbeat \<and>
   \<not> R_isReconcilingState after_second_heartbeat \<and>
   length (R_myPeer after_second_heartbeat # R_peers after_second_heartbeat) = 2 \<and>
   reconnects (snd (Room_handleProtooRequest after_second_heartbeat heartbeat_request)) = 1"
proof -
  have h: "\<And>r. Room_handleProtooRequest r heartbeat_request = heartbeat r server_roster"
    by (simp add: Room_handleProtooRequest_def heartbeat_request_def)
  have s: "length server_roster = 3" by (simp add: server_roster_def)
  have f: "R_state full_room = STATE_connected \<and> \<not> R_hasStateMismatch full_room \<and>
     \<not> R_isReconcilingState full_room \<and> length (R_myPeer full_room # R_peers full_room) = 2"
    by (simp add: full_room_def)
  have 1: "reconnects (snd (heartbeat full_room server_roster)) = 1"
    using f s by (intro heartbeat_reconnects_when_detected) simp_all
  have a: "R_state after_first_heartbeat = STATE_connected \<and>
     R_hasStateMismatch after_first_heartbeat \<and>
     length (R_myPeer after_first_heartbeat # R_peers after_first_heartbeat) = 2"
    by (simp add: after_first_heartbeat_eq full_room_def)
  have 2: "snd (heartbeat after_first_heartbeat server_roster) =
     [accept, Room_logEvent ''StateRecovery'' None]"
    using a heartbeat_clears_flags [of after_first_heartbeat server_roster] by simp
  have b: "after_second_heartbeat = full_room"
    by (simp add: after_second_heartbeat_def h after_first_heartbeat_eq)
      (simp add: heartbeat_def full_room_def server_roster_def guest_def sync_peers_def
        set_appData_def)
  have 3: "reconnects (snd (heartbeat after_second_heartbeat server_roster)) = 1"
    unfolding b by (rule 1)
  show ?thesis using 1 2 3 a s f by (simp add: h b)
qed

subsection \<open>Pause and resume by origin\<close>





text \<open>
  While an activation is under way and there is no consumer, the listener of
  \<open>change:track\<close> only triggers the update: its \<open>activate\<close> is stopped by the guard.
\<close>

lemma on_change_track_while_activating:
  "M_state m = STATE_activating \<Longrightarrow> M_consumer m = None \<Longrightarrow>
     Media_on_change_track env c m = (m, [triggerUpdate])"
  by (simp add: Media_on_change_track_def Media_activate_begin_def isAlreadyActive_def)





subsection \<open>One entry per triple\<close>




















lemma find_in_set: "List.find P ms = Some e \<Longrightarrow> e \<in> set ms"
  by (auto simp: find_Some_iff)











subsection \<open>Switching the track\<close>

text \<open>
  C5. For a media in \<open>active\<close> that holds a producer, SWITCH with track A moves to
  \<open>switching\<close> with one call of \<open>replaceTrack\<close>; when that resolves the machine is
  back in \<open>active\<close> bound to A; SWITCH with track B then does the same, and the machine
  ends in \<open>active\<close> bound to exactly B, with one \<open>replaceTrack\<close> per switch and
  nothing else of the context changed. Outside \<open>active\<close> SWITCH is ignored. When
  \<open>replaceTrack\<close> rejects, and when there is no producer to call it on, the machine
  goes to \<open>stopped\<close>.
\<close>

theorem switch_round_trip:
  "(in_active s \<and> media_producer ctx = Some p \<longrightarrow>
      (let (c1, e1) = mediaMachine (s, ctx) (SWITCH tA);
           (c2, e2) = mediaMachine c1 (switch_settles (snd c1) tA True);
           (c3, e3) = mediaMachine c2 (SWITCH tB);
           (c4, e4) = mediaMachine c3 (switch_settles (snd c3) tB True)
       in fst c1 = switching \<and> replace_calls e1 = [tA] \<and>
          in_active (fst c2) \<and> media_track (snd c2) = Some tA \<and> replace_calls e2 = [] \<and>
          fst c3 = switching \<and> replace_calls e3 = [tB] \<and>
          in_active (fst c4) \<and> media_track (snd c4) = Some tB \<and> replace_calls e4 = [] \<and>
          snd c4 = ctx\<lparr>media_track := Some tB\<rparr>)) \<and>
   (\<not> in_active s \<longrightarrow> mediaMachine (s, ctx) (SWITCH t) = ((s, ctx), [])) \<and>
   (in_active s \<and> media_producer ctx = Some p \<longrightarrow>
      fst (fst (mediaMachine (fst (mediaMachine (s, ctx) (SWITCH t))) (switch_settles ctx t False)))
        = stopped) \<and>
   (in_active s \<and> media_producer ctx = None \<longrightarrow>
      replace_calls (snd (mediaMachine (s, ctx) (SWITCH t))) = [] \<and>
      fst (fst (mediaMachine (fst (mediaMachine (s, ctx) (SWITCH t))) (switch_settles ctx t replaced)))
        = stopped)"
  apply (intro conjI impI)
  subgoal
    by (cases s) (auto simp: in_active_def invoke_switch_def switch_settles_def enter_active_def
        replace_calls_def exit_active_def Let_def split: option.splits)
  subgoal by (cases s) (auto simp: in_active_def)
  subgoal by (cases s) (auto simp: in_active_def switch_settles_def)
  subgoal
    by (cases s) (auto simp: in_active_def invoke_switch_def replace_calls_def exit_active_def
        split: option.splits)
  subgoal by (cases s) (auto simp: in_active_def switch_settles_def)
  done

text \<open>
  C5 on \<open>produced_media\<close>, bound to \<open>track0\<close>: two switches that resolve, and a SWITCH
  that arrives while the machine is in \<open>switching\<close>.
\<close>

theorem switch_round_trip_witness:
  "in_active (active (live healthy)) \<and> media_producer produced_media \<noteq> None \<and>
   fst (mediaMachine_run (active (live healthy), produced_media)
          [SWITCH trackA, done_invoke_switch trackA, SWITCH trackB, done_invoke_switch trackB]) =
     (active (live healthy), produced_media\<lparr>media_track := Some trackB\<rparr>) \<and>
   replace_calls (snd (mediaMachine_run (active (live healthy), produced_media)
          [SWITCH trackA, done_invoke_switch trackA, SWITCH trackB, done_invoke_switch trackB])) =
     [trackA, trackB] \<and>
   \<not> in_active switching \<and>
   mediaMachine (switching, produced_media) (SWITCH trackA) = ((switching, produced_media), [])"
  using switch_round_trip [of "active (live healthy)" produced_media
      "\<lparr>cap_id = ''p1'', cap_kind = video, cap_paused = False, cap_closed = False\<rparr>"
      trackA trackB trackA True]
    switch_round_trip [of switching produced_media
      "\<lparr>cap_id = ''p1'', cap_kind = video, cap_paused = False, cap_closed = False\<rparr>"
      trackA trackB trackA True]
  by (simp add: in_active_def produced_media_def invoke_switch_def switch_settles_def
      enter_active_def isPaused_def replace_calls_def exit_active_def)

subsection \<open>Activation without dependants\<close>

lemma activate_ignored:
  assumes "\<not> (M_consumer m \<noteq> None \<and> M_state m = STATE_paused)"
    and "isAlreadyActive m \<or> \<not> isRoomConnected \<or> \<not> hasDependants m"
  shows "Media_activate env isRoomConnected m = (m, [])"
  using assms by (auto simp: Media_activate_def)

lemma activate_times_without_dependants:
  assumes "M_dependants m = []" "M_state m = STATE_preparing \<or> M_state m = STATE_local"
  shows "Media_activate_times n env isRoomConnected m = (m, [])"
proof (induction n)
  case 0
  show ?case by simp
next
  case (Suc n)
  have "Media_activate env isRoomConnected m = (m, [])"
    using assms by (intro activate_ignored) (auto simp: hasDependants_def)
  with Suc show ?case by simp
qed

text \<open>
  C6, as the code has it. A media without dependants that is in \<open>preparing\<close> or
  \<open>local\<close> stays as it is over any number of \<open>activate\<close> calls, and nothing is
  called on its behalf. \<open>activate\<close> does nothing when the media is already active,
  activating or paused, or the room is not connected, or no dependant is registered,
  with one exception that comes first: a media that holds a consumer and is paused is
  unpaused, whatever the room and the dependants are.
\<close>

theorem activate_without_dependants:
  "(M_dependants m = [] \<and> (M_state m = STATE_preparing \<or> M_state m = STATE_local) \<longrightarrow>
      Media_activate_times n env isRoomConnected m = (m, [])) \<and>
   (\<not> (M_consumer m \<noteq> None \<and> M_state m = STATE_paused) \<and>
    (isAlreadyActive m \<or> \<not> isRoomConnected \<or> \<not> hasDependants m) \<longrightarrow>
      Media_activate env isRoomConnected m = (m, [])) \<and>
   (M_consumer m \<noteq> None \<and> M_state m = STATE_paused \<longrightarrow>
      Media_activate env isRoomConnected m = (m, Media_unpause m))"
  using activate_times_without_dependants [of m n env isRoomConnected]
    activate_ignored [of m isRoomConnected env]
  by (auto simp: Media_activate_def)

text \<open>
  C6 on \<open>local_js\<close>, a local media without dependants in a connected room, and on a
  paused consumer.
\<close>

theorem activate_without_dependants_witness:
  "M_dependants local_js = [] \<and> M_state local_js = STATE_preparing \<and>
   Media_activate_times 3 Media_env0 True local_js = (local_js, []) \<and>
   M_consumer local_js = None \<and> \<not> hasDependants local_js \<and>
   Media_activate Media_env0 True local_js = (local_js, []) \<and>
   M_consumer (consumed_js\<lparr>M_state := STATE_paused\<rparr>) \<noteq> None \<and>
   M_state (consumed_js\<lparr>M_state := STATE_paused\<rparr>) = STATE_paused \<and>
   Media_activate Media_env0 True (consumed_js\<lparr>M_state := STATE_paused\<rparr>) =
     (consumed_js\<lparr>M_state := STATE_paused\<rparr>,
      Media_unpause (consumed_js\<lparr>M_state := STATE_paused\<rparr>))"
  using activate_without_dependants [of local_js 3 Media_env0 True]
    activate_without_dependants [of "consumed_js\<lparr>M_state := STATE_paused\<rparr>" 0 Media_env0 True]
  by (simp add: local_js_def consumed_js_def hasDependants_def)

text \<open>
  C6 as stated fails: a paused consumer without dependants, in a room that is not
  connected, is resumed by \<open>activate\<close>.
\<close>

theorem activate_resumes_paused_consumer:
  "M_dependants (consumed_js\<lparr>M_state := STATE_paused\<rparr>) = [] \<and>
   snd (Media_activate Media_env0 False (consumed_js\<lparr>M_state := STATE_paused\<rparr>)) =
     [logEvent ''ResumeConsumerMedia'', consumer_resume]"
  by (simp add: consumed_js_def Media_activate_def Media_unpause_def)

subsection \<open>Unrecognized requests and notifications\<close>

text \<open>The request handler of the room machine answers no request but \<open>newConsumer\<close>.\<close>

lemma requestHandler_unknown:
  "request_name request \<noteq> ''newConsumer'' \<Longrightarrow> requestHandler ctx request env = []"
  by (simp add: requestHandler_def)

text \<open>A notification of another name than the four makes the handler do nothing.\<close>

lemma notificationHandler_unknown:
  "notification_name n \<notin> {''newPeer'', ''peerClosed'', ''peerUpdated'', ''consumerClosed''} \<Longrightarrow>
     notificationHandler ctx n = []"
  by (simp add: notificationHandler_def)

text \<open>The older room rejects a request of an unknown method with 404.\<close>

lemma Room_handleProtooRequest_unknown:
  "request_method request \<notin>
     {''event'', ''heartbeat'', ''mediasoup-notification'', ''active-speaker'', ''message''} \<Longrightarrow>
   Room_handleProtooRequest r request = (r, [reject 404 ''unknown method''])"
  by (simp add: Room_handleProtooRequest_def)

text \<open>
  C7, at a request the room machine does not know. The joined room forwards the
  request \<open>getStats\<close> to its request handler, and the handler returns without accepting
  or rejecting it; the older room rejects the same request with 404.
\<close>

theorem unknown_request_left_unanswered:
  "roomMachine (room_active (connected joined), ctx0)
       (REQUEST \<lparr>request_name = ''getStats'', request_data = None\<rparr>) =
     ((room_active (connected joined), ctx0),
      [SendTo RequestHandler (REQUEST \<lparr>request_name = ''getStats'', request_data = None\<rparr>)]) \<and>
   requestHandler ctx0 \<lparr>request_name = ''getStats'', request_data = None\<rparr> (env_resolves ''p1'') = [] \<and>
   snd (Room_handleProtooRequest full_room
          \<lparr>request_method = ''getStats'', request_payload = other_data\<rparr>) =
     [reject 404 ''unknown method'']"
  by (simp add: roomMachine_def on_active_state_def on_connected_state_def on_connected_def
      requestHandler_def Room_handleProtooRequest_def)

subsection \<open>The retry options of the socket\<close>

text \<open>
  C8, as the code has it. \<open>Room.open\<close> of room.js creates the socket with a minimum
  interval of 100 ms, factor 2, a maximum of 10 s and no limit of attempts; the
  \<open>socket\<close> service of the room machine with 500 ms, factor 2, 10 s and at most 30
  retries.
\<close>

theorem retry_policies:
  "minTimeout Room_open_retry = 100 \<and> factor Room_open_retry = 2 \<and>
   maxTimeout Room_open_retry = 10000 \<and> retry_limit Room_open_retry = None \<and>
   snd (Room_open r) = [open_socket Room_open_retry] \<and>
   minTimeout socket_retry = 500 \<and> factor socket_retry = 2 \<and>
   maxTimeout socket_retry = 10000 \<and> retry_limit socket_retry = Some 30"
  by (simp add: Room_open_retry_def socket_retry_def retry_limit_def Room_open_def)

text \<open>C8 on the room \<open>full_room\<close>.\<close>

theorem retry_policies_witness:
  "snd (Room_open full_room) = [open_socket Room_open_retry] \<and>
   retry_limit Room_open_retry = None \<and> retry_limit socket_retry = Some 30"
  using retry_policies [of full_room] by blast

text \<open>
  C8 as stated fails on the \<open>socket\<close> service: its minimum interval is not 100 ms and
  its attempts are limited.
\<close>

theorem socket_retry_differs:
  "\<not> (minTimeout socket_retry = 100 \<and> factor socket_retry = 2 \<and>
      maxTimeout socket_retry = 10000 \<and> retry_limit socket_retry = None)"
  by (simp add: socket_retry_def retry_limit_def)

subsection \<open>A closed media leaves the room\<close>

lemma on_connected_state_MEDIA_CLOSED: "on_connected_state s ctx (MEDIA_CLOSED i) = None"
  by (cases s) (simp_all add: on_connected_state_def)

lemma filter_removes_one:
  "distinct (map f xs) \<Longrightarrow> k \<in> f ` set xs \<Longrightarrow>
     Suc (length (filter (\<lambda>x. f x \<noteq> k) xs)) = length xs"
proof (induction xs)
  case Nil
  then show ?case by simp
next
  case (Cons a xs)
  show ?case
  proof (cases "f a = k")
    case True
    with Cons.prems have "k \<notin> f ` set xs" by auto
    then have "filter (\<lambda>x. f x \<noteq> k) xs = xs" by (auto simp: filter_id_conv)
    with True show ?thesis by simp
  next
    case False
    with Cons show ?thesis by auto
  qed
qed

text \<open>
  C9. In every state of \<open>connected\<close>, MEDIA.CLOSED with a media id leaves the state,
  keeps of the media list exactly the entries with another id, each as it was (its
  actor included), and changes nothing else of the context, the roster included. No
  actor is stopped: the stop action reads the list the assignment has filtered already.
  When the ids of the list are distinct and one of them is the id closed, exactly one
  entry goes.
\<close>

theorem media_closed_removes_only_that_entry:
  "roomMachine (room_active (connected s), ctx) (MEDIA_CLOSED mediaId) =
     ((room_active (connected s),
       ctx\<lparr>ctx_media := filter (\<lambda>x. media_id x \<noteq> mediaId) (ctx_media ctx)\<rparr>), []) \<and>
   (distinct (map media_id (ctx_media ctx)) \<and> mediaId \<in> media_id ` set (ctx_media ctx) \<longrightarrow>
      Suc (length (filter (\<lambda>x. media_id x \<noteq> mediaId) (ctx_media ctx))) = length (ctx_media ctx))"
proof
  have "filter (\<lambda>x. media_id x = mediaId)
      (filter (\<lambda>x. media_id x \<noteq> mediaId) (ctx_media ctx)) = []"
    by (simp add: filter_empty_conv)
  then show "roomMachine (room_active (connected s), ctx) (MEDIA_CLOSED mediaId) =
     ((room_active (connected s),
       ctx\<lparr>ctx_media := filter (\<lambda>x. media_id x \<noteq> mediaId) (ctx_media ctx)\<rparr>), [])"
    by (simp add: roomMachine_def on_active_state_def on_connected_state_MEDIA_CLOSED
        on_connected_def media_closed_def Let_def)
next
  show "distinct (map media_id (ctx_media ctx)) \<and> mediaId \<in> media_id ` set (ctx_media ctx) \<longrightarrow>
      Suc (length (filter (\<lambda>x. media_id x \<noteq> mediaId) (ctx_media ctx))) = length (ctx_media ctx)"
    using filter_removes_one [of media_id "ctx_media ctx" mediaId] by blast
qed

text \<open>C9 on a joined room with two media, of which \<open>p1\<close> closes.\<close>

theorem media_closed_removes_only_that_entry_witness:
  "roomMachine (room_active (connected joined), ctx0\<lparr>ctx_media := [produced_media, closed_media]\<rparr>)
       (MEDIA_CLOSED ''p1'') =
     ((room_active (connected joined), ctx0\<lparr>ctx_media := [closed_media]\<rparr>), []) \<and>
   distinct (map media_id [produced_media, closed_media]) \<and>
   ''p1'' \<in> media_id ` set [produced_media, closed_media] \<and>
   Suc (length (filter (\<lambda>x. media_id x \<noteq> ''p1'') [produced_media, closed_media])) =
     length [produced_media, closed_media]"
  using media_closed_removes_only_that_entry
    [of joined "ctx0\<lparr>ctx_media := [produced_media, closed_media]\<rparr>" "''p1''"]
  by (simp add: produced_media_def closed_media_def)

subsection \<open>Commands on a media that is missing or closed\<close>

lemma added_by_append: "added_by (xs @ ys) = added_by xs @ added_by ys"
  by (simp add: added_by_def sent_back_def)

lemma added_by_Cons:
  "added_by (SendBack ev # es) = (case added_media ev of None \<Rightarrow> [] | Some x \<Rightarrow> [x]) @ added_by es"
  "added_by (ProtooRequest n a # es) = added_by es"
  "added_by (GetUserMedia k # es) = added_by es"
  "added_by (CapabilityPause i # es) = added_by es"
  "added_by (CapabilityResume i # es) = added_by es"
  "added_by (CapabilityClose i # es) = added_by es"
  "added_by (TransportProduce t cd en ad # es) = added_by es"
  "added_by (TransportConsume i # es) = added_by es"
  "added_by (ActorSend i e # es) = added_by es"
  "added_by (Accept # es) = added_by es"
  "added_by (Reject code r # es) = added_by es"
  "added_by [] = []"
  by (simp_all add: added_by_def sent_back_def)

lemma added_by_command_failed: "added_by (command_failed command reason) = []"
  by (simp add: command_failed_def added_by_Cons added_media_def)

lemma added_by_actor_send: "added_by (actor_send command media e) = []"
  by (simp add: actor_send_def added_by_Cons added_by_command_failed split: option.splits)

lemma added_by_protoo_request: "added_by (fst (protoo_request ctx env name arg)) = []"
  by (simp add: protoo_request_def added_by_Cons split: option.splits)

lemma added_by_get_track: "added_by (fst (get_track env k payload)) = []"
  by (simp add: get_track_def added_by_Cons split: option.splits)

lemma added_by_half:
  "added_by (fst (pause_half ctx env name cap)) = []"
  "added_by (fst (resume_half ctx env name cap)) = []"
  by (simp_all add: pause_half_def resume_half_def split_beta added_by_append added_by_Cons
      added_by_protoo_request split: option.splits)

lemma added_by_both_halves:
  "added_by (fst h1) = [] \<Longrightarrow> added_by (fst h2) = [] \<Longrightarrow>
     added_by (both_halves command media e h1 h2) = []"
  by (simp add: both_halves_def split_beta added_by_append added_by_command_failed
      added_by_actor_send split: option.splits)

lemma added_by_switch_media:
  "added_by (switch_media ctx env command k mediaId newDefinition) = []"
  by (simp add: switch_media_def split_beta added_by_append added_by_command_failed
      added_by_actor_send added_by_get_track split: option.splits sum.splits)

lemma added_by_produce_and_add:
  "x \<in> set (added_by (produce_and_add ctx env command payload tr cdc enc)) \<Longrightarrow>
     single_capability x \<and> media_track x \<noteq> None"
  by (auto simp: produce_and_add_def added_by_Cons added_by_command_failed added_media_def
      local_media_def single_capability_def split: option.splits sum.splits)

text \<open>
  The command handler asks the machine to add only entries that hold a producer, no
  consumer and a track.
\<close>

lemma commandHandler_adds_producers:
  assumes "x \<in> set (added_by (commandHandler ctx command env))"
  shows "single_capability x \<and> media_track x \<noteq> None"
proof (cases command)
  case (SendAudio payload)
  with assms show ?thesis
    by (auto simp: commandHandler_def split_beta added_by_append added_by_Cons
        added_by_command_failed added_by_get_track
        dest: added_by_produce_and_add split: option.splits sum.splits if_splits)
next
  case (SendVideo payload)
  with assms show ?thesis
    by (auto simp: commandHandler_def split_beta added_by_append added_by_Cons
        added_by_command_failed added_by_get_track
        dest: added_by_produce_and_add split: option.splits sum.splits if_splits)
next
  case (PauseMedia i)
  with assms show ?thesis
    by (simp add: commandHandler_def added_by_half added_by_both_halves added_by_command_failed
        split: option.splits)
next
  case (ResumeMedia i)
  with assms show ?thesis
    by (simp add: commandHandler_def added_by_half added_by_both_halves added_by_command_failed
        split: option.splits)
next
  case (StopSendingMedia i)
  with assms show ?thesis
    by (simp add: commandHandler_def split_beta added_by_append added_by_Cons
        added_by_command_failed added_by_actor_send added_by_protoo_request
        split: option.splits)
next
  case (SwitchVideo i d)
  with assms show ?thesis
    by (simp add: commandHandler_def added_by_switch_media)
next
  case (SwitchAudio i d)
  with assms show ?thesis
    by (simp add: commandHandler_def added_by_switch_media)
next
  case RestartIce
  with assms show ?thesis
    by (simp add: commandHandler_def split_beta added_by_append added_by_command_failed
        added_by_protoo_request split: option.splits)
next
  case (UpdatePeer d)
  with assms show ?thesis
    by (simp add: commandHandler_def split_beta added_by_append added_by_command_failed
        added_by_protoo_request split: option.splits)
next
  case (ModifyMedia d)
  with assms show ?thesis
    by (simp add: commandHandler_def split_beta added_by_append added_by_command_failed
        added_by_protoo_request split: option.splits)
qed

text \<open>
  The request handler asks the machine to add only entries that hold a consumer, no
  producer and a track.
\<close>

lemma requestHandler_adds_consumers:
  assumes "x \<in> set (added_by (requestHandler ctx request env))"
  shows "single_capability x \<and> media_track x \<noteq> None"
  using assms
  by (auto simp: requestHandler_def added_by_Cons reject_request_def added_media_def
      single_capability_def split: option.splits sum.splits if_splits)

text \<open>The notification handler asks the machine to add nothing.\<close>

lemma notificationHandler_adds_nothing: "added_by (notificationHandler ctx n) = []"
  by (auto simp: notificationHandler_def onError_def added_media_def added_by_def sent_back_def
      split: option.splits)

text \<open>
  The machine changes its media list by appending the media of an event, by filtering
  and by emptying it: entries that hold one capability stay so when the media added do.
\<close>

lemma roomMachine_keeps_single_capability:
  assumes "list_all single_capability (ctx_media (snd conf))"
    and "\<And>x. added_media ev = Some x \<Longrightarrow> single_capability x"
  shows "list_all single_capability (ctx_media (snd (fst (roomMachine conf ev))))"
proof (cases conf)
  case (Pair st ctx)
  show ?thesis
  proof (cases st)
    case room_waiting
    with Pair assms show ?thesis
      by (cases ev) (simp_all add: roomMachine_def on_root_def)
  next
    case (room_active a)
    show ?thesis
    proof (cases a)
      case connecting
      with Pair room_active assms show ?thesis
        by (cases ev)
          (simp_all add: roomMachine_def on_active_state_def on_root_def reset_def
            enter_connected_def)
    next
      case reconnecting
      with Pair room_active assms show ?thesis
        by (cases ev)
          (simp_all add: roomMachine_def on_active_state_def on_root_def reset_def
            enter_connected_def)
    next
      case (connected s)
      with Pair room_active assms show ?thesis
        by (cases ev; cases s)
          (auto simp: roomMachine_def on_active_state_def on_connected_state_def on_connected_def
            on_root_def reset_def addMedia_def mediaMachine_start_def media_closed_def
            assign_join_def added_media_def single_capability_def list_all_iff Let_def
            split: option.splits)
    qed
  qed
qed

lemma roomMachine_run_keeps_single_capability:
  "list_all single_capability (ctx_media (snd conf)) \<Longrightarrow>
   list_all (\<lambda>ev. \<forall>x. added_media ev = Some x \<longrightarrow> single_capability x) evs \<Longrightarrow>
   list_all single_capability (ctx_media (snd (fst (roomMachine_run conf evs))))"
proof (induction evs arbitrary: conf)
  case Nil
  then show ?case by simp
next
  case (Cons ev evs)
  have "list_all single_capability (ctx_media (snd (fst (roomMachine conf ev))))"
    using Cons.prems by (intro roomMachine_keeps_single_capability) simp_all
  then have "list_all single_capability
      (ctx_media (snd (fst (roomMachine_run (fst (roomMachine conf ev)) evs))))"
    using Cons.IH Cons.prems by simp
  then show ?case by (simp add: split_beta)
qed

lemma added_by_iff:
  "x \<in> set (added_by es) \<longleftrightarrow> (\<exists>ev \<in> set (sent_back es). added_media ev = Some x)"
  by (force simp: added_by_def split: option.splits)

text \<open>
  A command keeps the invariant: in a joined room whose entries hold one capability
  each, the entries hold one capability each after the command.
\<close>

lemma send_command_keeps_single_capability:
  assumes "list_all single_capability (ctx_media ctx)"
  shows "list_all single_capability (ctx_media (snd (fst (send_command ctx command env))))"
proof -
  have "list_all (\<lambda>ev. \<forall>x. added_media ev = Some x \<longrightarrow> single_capability x)
      (sent_back (commandHandler ctx command env))"
    using commandHandler_adds_producers [of _ ctx command env]
    by (auto simp: list_all_iff added_by_iff)
  then show ?thesis
    using assms roomMachine_run_keeps_single_capability
      [of "(room_active (connected joined), ctx)" "sent_back (commandHandler ctx command env)"]
    by (simp add: send_command_def Let_def)
qed

lemma roomMachine_COMMAND_FAILED:
  "roomMachine (room_active (connected joined), ctx) (COMMAND_FAILED n reason) =
     ((room_active (connected joined), ctx), [])"
  by (simp add: roomMachine_def on_active_state_def on_connected_state_def on_connected_def)

lemma missing_media_fails:
  assumes "command_mediaId command = Some i" "find_media ctx i = None"
  shows "commandHandler ctx command env = command_failed command ''Media not found''"
  using assms by (cases command) (simp_all add: commandHandler_def switch_media_def)

text \<open>ResumeMedia on an entry whose one capability is closed.\<close>

lemma resume_closed_fails:
  assumes "find_media ctx i = Some media" "single_capability media"
    and "(case media_consumer media of Some c \<Rightarrow> cap_closed c | None \<Rightarrow> False) \<or>
         (case media_producer media of Some p \<Rightarrow> cap_closed p | None \<Rightarrow> False)"
  shows "commandHandler ctx (ResumeMedia i) env = command_failed (ResumeMedia i) ''Media is closed''"
  using assms
  by (auto simp: commandHandler_def both_halves_def resume_half_def single_capability_def
      split: option.splits)

text \<open>
  C10. A PauseMedia, ResumeMedia, StopSendingMedia, SwitchVideo or SwitchAudio command
  whose media id matches no entry makes the handler send back COMMAND_FAILED with the
  reason \<open>Media not found\<close> and nothing else: no request is sent, and the machine,
  which has no transition for COMMAND_FAILED, stays in \<open>joined\<close> with the same
  context. ResumeMedia on an entry whose consumer or producer is closed fails in the
  same way with the reason \<open>Media is closed\<close>. An entry holds a consumer or a
  producer and not both: the handlers ask the machine to add no other entries
  (lemmas \<open>commandHandler_adds_producers\<close>, \<open>requestHandler_adds_consumers\<close>,
  \<open>notificationHandler_adds_nothing\<close>) and the machine keeps the list so
  (lemma \<open>roomMachine_keeps_single_capability\<close>).
\<close>

theorem commands_on_missing_or_closed_media:
  "(command_mediaId command = Some i \<and> find_media ctx i = None \<longrightarrow>
      commandHandler ctx command env =
        [SendBack (COMMAND_FAILED (command_name command) ''Media not found'')] \<and>
      requests_sent (commandHandler ctx command env) = [] \<and>
      fst (send_command ctx command env) = (room_active (connected joined), ctx)) \<and>
   (find_media ctx i = Some media \<and> single_capability media \<and>
    ((case media_consumer media of Some c \<Rightarrow> cap_closed c | None \<Rightarrow> False) \<or>
     (case media_producer media of Some p \<Rightarrow> cap_closed p | None \<Rightarrow> False)) \<longrightarrow>
      commandHandler ctx (ResumeMedia i) env =
        [SendBack (COMMAND_FAILED ''ResumeMedia'' ''Media is closed'')] \<and>
      requests_sent (commandHandler ctx (ResumeMedia i) env) = [] \<and>
      fst (send_command ctx (ResumeMedia i) env) = (room_active (connected joined), ctx))"
proof (intro conjI impI)
  assume a: "command_mediaId command = Some i \<and> find_media ctx i = None"
  then have h: "commandHandler ctx command env =
      [SendBack (COMMAND_FAILED (command_name command) ''Media not found'')]"
    using missing_media_fails [of command i ctx env] by (simp add: command_failed_def)
  show "commandHandler ctx command env =
      [SendBack (COMMAND_FAILED (command_name command) ''Media not found'')]" by (rule h)
  show "requests_sent (commandHandler ctx command env) = []"
    by (simp add: h requests_sent_def)
  show "fst (send_command ctx command env) = (room_active (connected joined), ctx)"
    by (simp add: send_command_def h sent_back_def roomMachine_COMMAND_FAILED)
next
  assume a: "find_media ctx i = Some media \<and> single_capability media \<and>
    ((case media_consumer media of Some c \<Rightarrow> cap_closed c | None \<Rightarrow> False) \<or>
     (case media_producer media of Some p \<Rightarrow> cap_closed p | None \<Rightarrow> False))"
  then have h: "commandHandler ctx (ResumeMedia i) env =
      [SendBack (COMMAND_FAILED ''ResumeMedia'' ''Media is closed'')]"
    using resume_closed_fails [of ctx i media env] by (simp add: command_failed_def)
  show "commandHandler ctx (ResumeMedia i) env =
      [SendBack (COMMAND_FAILED ''ResumeMedia'' ''Media is closed'')]" by (rule h)
  show "requests_sent (commandHandler ctx (ResumeMedia i) env) = []"
    by (simp add: h requests_sent_def)
  show "fst (send_command ctx (ResumeMedia i) env) = (room_active (connected joined), ctx)"
    by (simp add: send_command_def h sent_back_def roomMachine_COMMAND_FAILED)
qed

text \<open>
  C10 on a joined room that holds \<open>closed_media\<close>, whose consumer is closed, and
  \<open>stopped_media\<close>, whose producer is closed: a pause of a media the room does not
  hold, and a resume of each of the two.
\<close>

theorem commands_on_missing_or_closed_media_witness:
  "command_mediaId (PauseMedia ''c9'') = Some ''c9'' \<and>
   find_media (ctx0\<lparr>ctx_media := [closed_media, stopped_media]\<rparr>) ''c9'' = None \<and>
   commandHandler (ctx0\<lparr>ctx_media := [closed_media, stopped_media]\<rparr>) (PauseMedia ''c9'')
       (env_resolves ''p1'') =
     [SendBack (COMMAND_FAILED ''PauseMedia'' ''Media not found'')] \<and>
   find_media (ctx0\<lparr>ctx_media := [closed_media, stopped_media]\<rparr>) ''c2'' = Some closed_media \<and>
   single_capability closed_media \<and>
   map_option cap_closed (media_consumer closed_media) = Some True \<and>
   commandHandler (ctx0\<lparr>ctx_media := [closed_media, stopped_media]\<rparr>) (ResumeMedia ''c2'')
       (env_resolves ''p1'') =
     [SendBack (COMMAND_FAILED ''ResumeMedia'' ''Media is closed'')] \<and>
   find_media (ctx0\<lparr>ctx_media := [closed_media, stopped_media]\<rparr>) ''p3'' = Some stopped_media \<and>
   single_capability stopped_media \<and>
   map_option cap_closed (media_producer stopped_media) = Some True \<and>
   commandHandler (ctx0\<lparr>ctx_media := [closed_media, stopped_media]\<rparr>) (ResumeMedia ''p3'')
       (env_resolves ''p1'') =
     [SendBack (COMMAND_FAILED ''ResumeMedia'' ''Media is closed'')]"
  using commands_on_missing_or_closed_media
          [of "PauseMedia ''c9''" "''c9''" "ctx0\<lparr>ctx_media := [closed_media, stopped_media]\<rparr>"
            "env_resolves ''p1''"]
        commands_on_missing_or_closed_media
          [of "ResumeMedia ''c2''" "''c2''" "ctx0\<lparr>ctx_media := [closed_media, stopped_media]\<rparr>"
            "env_resolves ''p1''" closed_media]
        commands_on_missing_or_closed_media
          [of "ResumeMedia ''p3''" "''p3''" "ctx0\<lparr>ctx_media := [closed_media, stopped_media]\<rparr>"
            "env_resolves ''p1''" stopped_media]
  by (simp add: find_media_def closed_media_def stopped_media_def single_capability_def)


end
